theory Spec2Isabelle
  imports Main "HOL-Library.Char_ord" "HOL-Library.List_Lexorder" "HOL-Library.Sublist"
begin

section \<open>Python values\<close>

text \<open>
  The handlers of \<^verbatim>\<open>backend/main.py\<close> and \<^verbatim>\<open>backend/voice.py\<close> pass Python
  dictionaries around (\<^verbatim>\<open>Dict[str, Any]\<close>).  A value is a JSON-like term; a dictionary is an
  association list, looked up with \<open>map_of\<close> (Python's \<^verbatim>\<open>d.get(k)\<close>).
\<close>

datatype json =
    JNull
  | JBool bool
  | JInt int
  | JStr string
  | JArr "json list"
  | JObj "(string \<times> json) list"

type_synonym pydict = "(string \<times> json) list"

type_synonym bytes = string

definition keys :: "pydict \<Rightarrow> string list" where
  "keys d = map fst d"

text \<open>
  Where the code looks at the characters of a Python \<^verbatim>\<open>str\<close> one by one (\<^verbatim>\<open>str.strip\<close>,
  \<^verbatim>\<open>str.encode\<close>), the \<^verbatim>\<open>str\<close> is the list of its Unicode code points.  Everywhere else
  a \<open>string\<close> stands for the UTF-8 bytes of the \<^verbatim>\<open>str\<close>; \<open>utf8\<close> gives the bytes of a
  list of code points.
\<close>

type_synonym unicode = "nat list"

definition utf8_char :: "nat \<Rightarrow> string" where
  "utf8_char n =
     (if n < 0x80 then [char_of n]
      else if n < 0x800 then [char_of (0xC0 + n div 0x40), char_of (0x80 + n mod 0x40)]
      else if n < 0x10000 then
        [char_of (0xE0 + n div 0x1000), char_of (0x80 + n div 0x40 mod 0x40),
         char_of (0x80 + n mod 0x40)]
      else
        [char_of (0xF0 + n div 0x40000), char_of (0x80 + n div 0x1000 mod 0x40),
         char_of (0x80 + n div 0x40 mod 0x40), char_of (0x80 + n mod 0x40)])"

definition utf8 :: "unicode \<Rightarrow> string" where
  "utf8 t = concat (map utf8_char t)"


section \<open>users.py: the SQLite user table\<close>

text \<open>
  One row of the table \<^verbatim>\<open>users\<close> created by \<^verbatim>\<open>ensure_db\<close>; the table is the list of its
  rows.
\<close>

record user_row =
  row_id :: string
  row_email :: string
  row_password_hash :: string
  row_name :: string
  row_is_admin :: bool
  row_created_at :: string

text \<open>
  \<^verbatim>\<open>dict(row)\<close> for a row of
  \<^verbatim>\<open>SELECT id, email, name, is_admin, created_at FROM users ...\<close>: the keys are the selected
  columns, in the order of the SELECT.
\<close>

definition public_columns :: "user_row \<Rightarrow> pydict" where
  "public_columns r =
     [(''id'', JStr (row_id r)),
      (''email'', JStr (row_email r)),
      (''name'', JStr (row_name r)),
      (''is_admin'', JBool (row_is_admin r)),
      (''created_at'', JStr (row_created_at r))]"

text \<open>
  \<^verbatim>\<open>dict(row)\<close> for
  \<^verbatim>\<open>SELECT id, email, password_hash, name, is_admin, created_at FROM users ...\<close>.
\<close>

definition all_columns :: "user_row \<Rightarrow> pydict" where
  "all_columns r =
     [(''id'', JStr (row_id r)),
      (''email'', JStr (row_email r)),
      (''password_hash'', JStr (row_password_hash r)),
      (''name'', JStr (row_name r)),
      (''is_admin'', JBool (row_is_admin r)),
      (''created_at'', JStr (row_created_at r))]"

text \<open>
  \<^verbatim>\<open>get_user_by_id\<close>: \<^verbatim>\<open>... WHERE id = ?\<close>, \<^verbatim>\<open>fetchone()\<close>, \<^verbatim>\<open>None\<close> when no row matches.
  The parameter is whatever the caller passes (\<^verbatim>\<open>payload.get("sub")\<close> may be \<^verbatim>\<open>None\<close>); a
  row matches when the parameter is the string stored in its \<^verbatim>\<open>id\<close> column.
\<close>

definition get_user_by_id :: "user_row list \<Rightarrow> json option \<Rightarrow> pydict option" where
  "get_user_by_id db user_id =
     (case find (\<lambda>r. user_id = Some (JStr (row_id r))) db of
        None \<Rightarrow> None
      | Some r \<Rightarrow> Some (public_columns r))"

text \<open>\<^verbatim>\<open>get_user_by_email\<close>: the one lookup that selects \<^verbatim>\<open>password_hash\<close>.\<close>

definition get_user_by_email :: "user_row list \<Rightarrow> string \<Rightarrow> pydict option" where
  "get_user_by_email db email =
     (case find (\<lambda>r. row_email r = email) db of
        None \<Rightarrow> None
      | Some r \<Rightarrow> Some (all_columns r))"

text \<open>
  \<^verbatim>\<open>list_users\<close>: \<^verbatim>\<open>... ORDER BY created_at DESC\<close>, \<^verbatim>\<open>fetchall()\<close>.  The column is TEXT,
  compared bytewise; rows with equal keys come in an order SQLite chooses (here: the reverse
  of a stable ascending sort).
\<close>

definition list_users :: "user_row list \<Rightarrow> pydict list" where
  "list_users db = map public_columns (rev (sort_key row_created_at db))"

section \<open>auth.py and the login endpoint\<close>

text \<open>
  What \<^verbatim>\<open>jwt.decode\<close> can raise, as far as \<^verbatim>\<open>verify_token\<close> tells the classes apart:
  the two it catches, and any other exception.
\<close>

datatype jwt_error =
    ExpiredSignatureError
  | InvalidTokenError
  | OtherError string

text \<open>
  \<^verbatim>\<open>verify_token\<close>: \<^verbatim>\<open>jwt.decode(token, JWT_SECRET, algorithms=[JWT_ALGORITHM])\<close> is the
  library call, taken as a parameter (secret and algorithm fixed in it).  \<open>Inl\<close> is an
  exception that leaves \<^verbatim>\<open>verify_token\<close>.  The function never looks into the token, so
  the token may be written as bytes or as code points.
\<close>

definition verify_token ::
    "('t \<Rightarrow> jwt_error + pydict) \<Rightarrow> 't \<Rightarrow> jwt_error + pydict option" where
  "verify_token jwt_decode token =
     (case jwt_decode token of
        Inr payload \<Rightarrow> Inr (Some payload)
      | Inl ExpiredSignatureError \<Rightarrow> Inr None
      | Inl InvalidTokenError \<Rightarrow> Inr None
      | Inl (OtherError m) \<Rightarrow> Inl (OtherError m))"



section \<open>Exceptions and results\<close>

text \<open>
  An exception object that a collaborator call or a dictionary subscript raises; all are
  subclasses of \<^verbatim>\<open>Exception\<close>.  \<open>Exception m\<close> is any other exception whose \<^verbatim>\<open>str(e)\<close>
  is \<open>m\<close>.  Task cancellation (\<^verbatim>\<open>asyncio.CancelledError\<close>, a \<^verbatim>\<open>BaseException\<close>) is not
  modelled.
\<close>

datatype exn =
    Exception string
  | KeyError string
  | AttributeError string
  | WebSocketDisconnect

fun exn_str :: "exn \<Rightarrow> string" where
  "exn_str (Exception m) = m"
| "exn_str (KeyError k) = CHR 0x27 # k @ [CHR 0x27]"
| "exn_str (AttributeError m) = m"
| "exn_str WebSocketDisconnect = []"

text \<open>\<^verbatim>\<open>d[k]\<close>: raises \<^verbatim>\<open>KeyError\<close> when the key is missing.\<close>

definition subscript :: "pydict \<Rightarrow> string \<Rightarrow> exn + json" where
  "subscript d k = (case map_of d k of None \<Rightarrow> Inl (KeyError k) | Some v \<Rightarrow> Inr v)"

text \<open>
  The outcome of an HTTP handler: the returned body, an \<^verbatim>\<open>HTTPException\<close> raised by the
  handler (status code and detail), or an exception that escapes it (FastAPI answers 500).
\<close>

datatype 'a http_result =
    Returned 'a
  | HTTPException nat string
  | Uncaught exn

text \<open>
  \<^verbatim>\<open>login\<close>: \<^verbatim>\<open>verify_password\<close> (bcrypt) and \<^verbatim>\<open>create_token\<close> (JWT encoding) are library
  wrappers, taken as parameters.  The result is the response body \<^verbatim>\<open>{"token", "user"}\<close>.
\<close>

definition login ::
    "(string \<Rightarrow> json \<Rightarrow> bool) \<Rightarrow> (json \<Rightarrow> json \<Rightarrow> json \<Rightarrow> string) \<Rightarrow> user_row list
       \<Rightarrow> string \<Rightarrow> string \<Rightarrow> (string \<times> pydict) http_result" where
  "login verify_password create_token db email password =
     (case get_user_by_email db email of
        None \<Rightarrow> HTTPException 401 ''Invalid email or password''
      | Some user \<Rightarrow>
          (case subscript user ''password_hash'' of
             Inl e \<Rightarrow> Uncaught e
           | Inr password_hash \<Rightarrow>
               if \<not> verify_password password password_hash
               then HTTPException 401 ''Invalid email or password''
               else
                 (case subscript user ''id'' of
                    Inl e \<Rightarrow> Uncaught e
                  | Inr uid \<Rightarrow>
                 (case subscript user ''email'' of
                    Inl e \<Rightarrow> Uncaught e
                  | Inr uemail \<Rightarrow>
                 (case subscript user ''is_admin'' of
                    Inl e \<Rightarrow> Uncaught e
                  | Inr is_admin \<Rightarrow>
                      let token = create_token uid uemail is_admin;
                          user_response = filter (\<lambda>(k, v). k \<noteq> ''password_hash'') user
                      in Returned (token, user_response))))))"

section \<open>Collaborators and effects\<close>

text \<open>
  Events sent to the client: the \<^verbatim>\<open>data:\<close> lines of the Server-Sent-Events stream and the
  JSON messages of the voice WebSocket use the same \<^verbatim>\<open>type\<close> names.  \<open>Stage2Complete\<close>
  carries \<^verbatim>\<open>data\<close>, \<^verbatim>\<open>metadata.label_to_model\<close> and \<^verbatim>\<open>metadata.aggregate_rankings\<close>.
\<close>

datatype event =
    Stage1Start
  | Stage1Complete json
  | Stage2Start
  | Stage2Complete json json json
  | Stage3Start
  | Stage3Complete json
  | TitleComplete string
  | Complete
  | Error string
  | RecordingStarted
  | Transcription unicode
  | AudioStart
  | AudioResponse string
  | AudioComplete

text \<open>Messages that \<^verbatim>\<open>RealtimeClient\<close> sends to the transcription service.\<close>

datatype rt_out =
    SessionUpdate
  | InputAudioBufferAppend bytes
  | InputAudioBufferCommit
  | ResponseCreate

text \<open>
  Calls that leave the handlers, in program order.  \<open>TitleStart\<close> is the point where
  \<^verbatim>\<open>generate_conversation_title\<close> is started (\<^verbatim>\<open>asyncio.create_task\<close>, or the call itself
  where it is awaited on the spot), \<open>TitleAwait\<close> the point where its result is awaited.
\<close>

datatype call =
    AddUserMessage string string
  | UpdateConversationTitle string string
  | AddAssistantMessage string json json json
  | TitleStart string
  | TitleAwait
  | Stage1CollectResponses string
  | Stage2CollectRankings string json
  | CalculateAggregateRankings json json
  | Stage3SynthesizeFinal string json json
  | RunFullCouncil string
  | RealtimeConnect
  | RealtimeSend rt_out
  | RealtimeReceive
  | RealtimeClose
  | TextToSpeech json

text \<open>
  A stored conversation as the handlers read it: \<^verbatim>\<open>conversation.get("user_id")\<close>
  (\<open>JNull\<close> for Python's \<^verbatim>\<open>None\<close>) and \<^verbatim>\<open>conversation["messages"]\<close>.
\<close>

record conversation =
  conv_user_id :: json
  conv_messages :: "json list"

text \<open>Events of the transcription service, as \<^verbatim>\<open>receive_messages\<close> tells them apart.\<close>

datatype rt_in =
    TranscriptionCompleted unicode
  | ResponseTextDone unicode
  | ResponseDone
  | ErrorEvent
  | OtherEvent
  | NotJSON

text \<open>How the iteration over the service's messages ends once they are used up.\<close>

datatype rt_end = StreamEnds | ConnectionClosed | ReceiveFails

text \<open>
  The collaborators.  \<^verbatim>\<open>storage\<close> and \<^verbatim>\<open>council\<close> are modules of the repository whose
  sources are not available; with the provider clients and the libraries they are
  parameters of the model.  A call either returns (\<open>Inr\<close>) or raises (\<open>Inl\<close>); a storage
  write returns the new store and the exception it raised, if any.
\<close>

record 's env =
  storage_get_conversation :: "'s \<Rightarrow> string \<Rightarrow> conversation option"
  storage_add_user_message :: "'s \<Rightarrow> string \<Rightarrow> string \<Rightarrow> 's \<times> exn option"
  storage_update_conversation_title :: "'s \<Rightarrow> string \<Rightarrow> string \<Rightarrow> 's \<times> exn option"
  storage_add_assistant_message :: "'s \<Rightarrow> string \<Rightarrow> json \<Rightarrow> json \<Rightarrow> json \<Rightarrow> 's \<times> exn option"
  council_generate_conversation_title :: "string \<Rightarrow> exn + string"
  council_stage1_collect_responses :: "string \<Rightarrow> exn + json"
  council_stage2_collect_rankings :: "string \<Rightarrow> json \<Rightarrow> exn + (json \<times> json)"
  council_calculate_aggregate_rankings :: "json \<Rightarrow> json \<Rightarrow> exn + json"
  council_stage3_synthesize_final :: "string \<Rightarrow> json \<Rightarrow> json \<Rightarrow> exn + json"
  council_run_full_council :: "string \<Rightarrow> exn + (json \<times> json \<times> json \<times> json)"
  user_table :: "user_row list"
  jwt_library_decode :: "string \<Rightarrow> jwt_error + pydict"
  OPENAI_API_KEY :: "string option"
  b64decode :: "string \<Rightarrow> exn + bytes"
  b64encode :: "bytes \<Rightarrow> string"
  realtime_connect :: "exn option"
  realtime_send :: "rt_out \<Rightarrow> exn option"
  realtime_inbox :: "rt_in list"
  realtime_inbox_end :: rt_end
  realtime_close :: "exn option"
  text_to_speech_stream :: "json \<Rightarrow> bytes list \<times> exn option"
  websocket_send_json :: "event list \<Rightarrow> event \<Rightarrow> exn option"

text \<open>
  What a handler changes: the conversation store, the events sent to the client so far,
  and the log of collaborator calls.
\<close>

record 's world =
  store :: 's
  sent :: "event list"
  calls :: "call list"

text \<open>
  A piece of handler code: from a state to its outcome (an exception or a value) and the
  state it leaves behind.  Effects made before an exception stay.
\<close>

type_synonym ('w, 'a) prog = "'w \<Rightarrow> (exn + 'a) \<times> 'w"

definition returnP :: "'a \<Rightarrow> ('w, 'a) prog" where
  "returnP a w = (Inr a, w)"

definition raiseP :: "exn \<Rightarrow> ('w, 'a) prog" where
  "raiseP e w = (Inl e, w)"

definition bindP :: "('w, 'a) prog \<Rightarrow> ('a \<Rightarrow> ('w, 'b) prog) \<Rightarrow> ('w, 'b) prog" where
  "bindP m f w = (case m w of (Inl e, w') \<Rightarrow> (Inl e, w') | (Inr a, w') \<Rightarrow> f a w')"

text \<open>\<^verbatim>\<open>try: m  except Exception as e: h(e)\<close>\<close>

definition try_except :: "('w, 'a) prog \<Rightarrow> (exn \<Rightarrow> ('w, 'a) prog) \<Rightarrow> ('w, 'a) prog" where
  "try_except m h w = (case m w of (Inl e, w') \<Rightarrow> h e w' | (Inr a, w') \<Rightarrow> (Inr a, w'))"

text \<open>
  \<^verbatim>\<open>try: m  finally: c\<close>: \<open>c\<close> runs whatever \<open>m\<close> did; an exception of \<open>c\<close> replaces the
  outcome of \<open>m\<close>.
\<close>

definition try_finally :: "('w, 'a) prog \<Rightarrow> ('w, unit) prog \<Rightarrow> ('w, 'a) prog" where
  "try_finally m c w =
     (case m w of (r, w') \<Rightarrow> (case c w' of (Inl e, w'') \<Rightarrow> (Inl e, w'') | (Inr _, w'') \<Rightarrow> (r, w'')))"

definition log_call :: "call \<Rightarrow> (('s, 'z) world_scheme, unit) prog" where
  "log_call c w = (Inr (), w\<lparr>calls := calls w @ [c]\<rparr>)"

definition collaborator :: "call \<Rightarrow> exn + 'a \<Rightarrow> (('s, 'z) world_scheme, 'a) prog" where
  "collaborator c outcome w = (outcome, w\<lparr>calls := calls w @ [c]\<rparr>)"

definition storage_write ::
    "call \<Rightarrow> ('s \<Rightarrow> 's \<times> exn option) \<Rightarrow> (('s, 'z) world_scheme, unit) prog" where
  "storage_write c f w =
     (case f (store w) of
        (st, None) \<Rightarrow> (Inr (), w\<lparr>store := st, calls := calls w @ [c]\<rparr>)
      | (st, Some e) \<Rightarrow> (Inl e, w\<lparr>store := st, calls := calls w @ [c]\<rparr>))"

text \<open>A \<^verbatim>\<open>yield\<close> of the Server-Sent-Events generator.\<close>

definition yield :: "event \<Rightarrow> (('s, 'z) world_scheme, unit) prog" where
  "yield ev w = (Inr (), w\<lparr>sent := sent w @ [ev]\<rparr>)"

definition add_user_message ::
    "'s env \<Rightarrow> string \<Rightarrow> string \<Rightarrow> (('s, 'z) world_scheme, unit) prog" where
  "add_user_message env conversation_id content =
     storage_write (AddUserMessage conversation_id content)
       (\<lambda>st. storage_add_user_message env st conversation_id content)"

definition update_conversation_title ::
    "'s env \<Rightarrow> string \<Rightarrow> string \<Rightarrow> (('s, 'z) world_scheme, unit) prog" where
  "update_conversation_title env conversation_id title =
     storage_write (UpdateConversationTitle conversation_id title)
       (\<lambda>st. storage_update_conversation_title env st conversation_id title)"

definition add_assistant_message ::
    "'s env \<Rightarrow> string \<Rightarrow> json \<Rightarrow> json \<Rightarrow> json \<Rightarrow> (('s, 'z) world_scheme, unit) prog" where
  "add_assistant_message env conversation_id stage1 stage2 stage3 =
     storage_write (AddAssistantMessage conversation_id stage1 stage2 stage3)
       (\<lambda>st. storage_add_assistant_message env st conversation_id stage1 stage2 stage3)"

text \<open>\<^verbatim>\<open>asyncio.create_task(generate_conversation_title(q))\<close> and \<^verbatim>\<open>await title_task\<close>.\<close>

definition create_title_task :: "string \<Rightarrow> (('s, 'z) world_scheme, unit) prog" where
  "create_title_task q = log_call (TitleStart q)"

definition await_title_task :: "'s env \<Rightarrow> string \<Rightarrow> (('s, 'z) world_scheme, string) prog" where
  "await_title_task env q = collaborator TitleAwait (council_generate_conversation_title env q)"

text \<open>\<^verbatim>\<open>await generate_conversation_title(q)\<close>: started and awaited on the spot.\<close>

definition generate_conversation_title ::
    "'s env \<Rightarrow> string \<Rightarrow> (('s, 'z) world_scheme, string) prog" where
  "generate_conversation_title env q =
     bindP (create_title_task q) (\<lambda>_. await_title_task env q)"

definition stage1_collect_responses ::
    "'s env \<Rightarrow> string \<Rightarrow> (('s, 'z) world_scheme, json) prog" where
  "stage1_collect_responses env q =
     collaborator (Stage1CollectResponses q) (council_stage1_collect_responses env q)"

definition stage2_collect_rankings ::
    "'s env \<Rightarrow> string \<Rightarrow> json \<Rightarrow> (('s, 'z) world_scheme, json \<times> json) prog" where
  "stage2_collect_rankings env q stage1 =
     collaborator (Stage2CollectRankings q stage1) (council_stage2_collect_rankings env q stage1)"

definition calculate_aggregate_rankings ::
    "'s env \<Rightarrow> json \<Rightarrow> json \<Rightarrow> (('s, 'z) world_scheme, json) prog" where
  "calculate_aggregate_rankings env stage2 label_to_model =
     collaborator (CalculateAggregateRankings stage2 label_to_model)
       (council_calculate_aggregate_rankings env stage2 label_to_model)"

definition stage3_synthesize_final ::
    "'s env \<Rightarrow> string \<Rightarrow> json \<Rightarrow> json \<Rightarrow> (('s, 'z) world_scheme, json) prog" where
  "stage3_synthesize_final env q stage1 stage2 =
     collaborator (Stage3SynthesizeFinal q stage1 stage2)
       (council_stage3_synthesize_final env q stage1 stage2)"

definition run_full_council ::
    "'s env \<Rightarrow> string \<Rightarrow> (('s, 'z) world_scheme, json \<times> json \<times> json \<times> json) prog" where
  "run_full_council env q = collaborator (RunFullCouncil q) (council_run_full_council env q)"

section \<open>main.py: the atomic and the streaming endpoint\<close>

record response =
  resp_stage1 :: json
  resp_stage2 :: json
  resp_stage3 :: json
  resp_metadata :: json

text \<open>\<^verbatim>\<open>send_message\<close> after its two precondition checks.\<close>

definition send_message_body ::
    "'s env \<Rightarrow> string \<Rightarrow> string \<Rightarrow> bool \<Rightarrow> (('s, 'z) world_scheme, response) prog" where
  "send_message_body env conversation_id content is_first_message =
     bindP (add_user_message env conversation_id content) (\<lambda>_.
     bindP (if is_first_message
            then bindP (generate_conversation_title env content) (\<lambda>title.
                   update_conversation_title env conversation_id title)
            else returnP ()) (\<lambda>_.
     bindP (run_full_council env content)
       (\<lambda>(stage1_results, stage2_results, stage3_result, metadata).
     bindP (add_assistant_message env conversation_id stage1_results stage2_results stage3_result)
       (\<lambda>_.
     returnP \<lparr>resp_stage1 = stage1_results, resp_stage2 = stage2_results,
              resp_stage3 = stage3_result, resp_metadata = metadata\<rparr>))))"

text \<open>
  \<^verbatim>\<open>send_message\<close>, for an authenticated caller (\<^verbatim>\<open>current_user\<close> is what the
  \<^verbatim>\<open>get_current_user\<close> dependency returned).
\<close>

definition send_message ::
    "'s env \<Rightarrow> string \<Rightarrow> string \<Rightarrow> pydict \<Rightarrow> ('s, 'z) world_scheme
       \<Rightarrow> response http_result \<times> ('s, 'z) world_scheme" where
  "send_message env conversation_id content current_user w =
     (case storage_get_conversation env (store w) conversation_id of
        None \<Rightarrow> (HTTPException 404 ''Conversation not found'', w)
      | Some conversation \<Rightarrow>
          (case subscript current_user ''id'' of
             Inl e \<Rightarrow> (Uncaught e, w)
           | Inr uid \<Rightarrow>
               if conv_user_id conversation \<noteq> uid then (HTTPException 403 ''Access denied'', w)
               else
                 (case send_message_body env conversation_id content
                         (length (conv_messages conversation) = 0) w of
                    (Inl e, w') \<Rightarrow> (Uncaught e, w')
                  | (Inr r, w') \<Rightarrow> (Returned r, w'))))"

text \<open>The \<^verbatim>\<open>try\<close> block of \<^verbatim>\<open>event_generator\<close>.\<close>

definition council_turn ::
    "'s env \<Rightarrow> string \<Rightarrow> string \<Rightarrow> bool \<Rightarrow> (('s, 'z) world_scheme, unit) prog" where
  "council_turn env conversation_id content is_first_message =
     bindP (add_user_message env conversation_id content) (\<lambda>_.
     bindP (if is_first_message then create_title_task content else returnP ()) (\<lambda>_.
     bindP (yield Stage1Start) (\<lambda>_.
     bindP (stage1_collect_responses env content) (\<lambda>stage1_results.
     bindP (yield (Stage1Complete stage1_results)) (\<lambda>_.
     bindP (yield Stage2Start) (\<lambda>_.
     bindP (stage2_collect_rankings env content stage1_results)
       (\<lambda>(stage2_results, label_to_model).
     bindP (calculate_aggregate_rankings env stage2_results label_to_model)
       (\<lambda>aggregate_rankings.
     bindP (yield (Stage2Complete stage2_results label_to_model aggregate_rankings)) (\<lambda>_.
     bindP (yield Stage3Start) (\<lambda>_.
     bindP (stage3_synthesize_final env content stage1_results stage2_results)
       (\<lambda>stage3_result.
     bindP (yield (Stage3Complete stage3_result)) (\<lambda>_.
     bindP (if is_first_message
            then bindP (await_title_task env content) (\<lambda>title.
                 bindP (update_conversation_title env conversation_id title) (\<lambda>_.
                 yield (TitleComplete title)))
            else returnP ()) (\<lambda>_.
     bindP (add_assistant_message env conversation_id stage1_results stage2_results stage3_result)
       (\<lambda>_.
     yield Complete))))))))))))))"

definition event_generator ::
    "'s env \<Rightarrow> string \<Rightarrow> string \<Rightarrow> bool \<Rightarrow> (('s, 'z) world_scheme, unit) prog" where
  "event_generator env conversation_id content is_first_message =
     try_except (council_turn env conversation_id content is_first_message)
       (\<lambda>e. yield (Error (exn_str e)))"

text \<open>
  \<^verbatim>\<open>send_message_stream\<close>: the precondition checks are made before the response starts;
  past them the response is the stream that \<^verbatim>\<open>event_generator\<close> produces.
\<close>

definition send_message_stream ::
    "'s env \<Rightarrow> string \<Rightarrow> string \<Rightarrow> pydict \<Rightarrow> ('s, 'z) world_scheme
       \<Rightarrow> unit http_result \<times> ('s, 'z) world_scheme" where
  "send_message_stream env conversation_id content current_user w =
     (case storage_get_conversation env (store w) conversation_id of
        None \<Rightarrow> (HTTPException 404 ''Conversation not found'', w)
      | Some conversation \<Rightarrow>
          (case subscript current_user ''id'' of
             Inl e \<Rightarrow> (Uncaught e, w)
           | Inr uid \<Rightarrow>
               if conv_user_id conversation \<noteq> uid then (HTTPException 403 ''Access denied'', w)
               else
                 (case event_generator env conversation_id content
                         (length (conv_messages conversation) = 0) w of
                    (Inl e, w') \<Rightarrow> (Uncaught e, w')
                  | (Inr r, w') \<Rightarrow> (Returned r, w'))))"

section \<open>openai\_realtime.py: the transcription client\<close>

text \<open>
  The fields of \<^verbatim>\<open>RealtimeClient\<close> that its methods read: whether \<^verbatim>\<open>self.ws\<close> is set and
  \<^verbatim>\<open>self._connected\<close>.  (\<^verbatim>\<open>_on_transcription\<close> stays \<^verbatim>\<open>None\<close>: the voice session never sets a
  callback.)
\<close>

record realtime =
  rt_ws :: bool
  rt_connected :: bool

text \<open>The state of a \<^verbatim>\<open>VoiceChatSession\<close>, on top of what every handler changes.\<close>

record 's session = "'s world" +
  audio_chunks :: "bytes list"
  realtime_client :: "realtime option"
  is_recording :: bool

definition option_outcome :: "exn option \<Rightarrow> exn + unit" where
  "option_outcome r = (case r of None \<Rightarrow> Inr () | Some e \<Rightarrow> Inl e)"

text \<open>\<^verbatim>\<open>await self.ws.send(json.dumps(m))\<close>\<close>

definition realtime_ws_send :: "'s env \<Rightarrow> rt_out \<Rightarrow> (('s, 'z) world_scheme, unit) prog" where
  "realtime_ws_send env m = collaborator (RealtimeSend m) (option_outcome (realtime_send env m))"

definition set_client :: "realtime option \<Rightarrow> (('s, 'z) session_scheme, unit) prog" where
  "set_client c s = (Inr (), s\<lparr>realtime_client := c\<rparr>)"

text \<open>
  The methods are called on \<^verbatim>\<open>self.realtime_client\<close>; on \<^verbatim>\<open>None\<close> Python raises
  \<^verbatim>\<open>AttributeError\<close>.
\<close>

definition with_client ::
    "(realtime \<Rightarrow> (('s, 'z) session_scheme, 'a) prog) \<Rightarrow> (('s, 'z) session_scheme, 'a) prog" where
  "with_client f s =
     (case realtime_client s of
        None \<Rightarrow> (Inl (AttributeError ''NoneType''), s)
      | Some c \<Rightarrow> f c s)"

definition client_connect :: "'s env \<Rightarrow> (('s, 'z) session_scheme, bool) prog" where
  "client_connect env =
     with_client (\<lambda>c.
       try_except
         (bindP (collaborator RealtimeConnect (option_outcome (realtime_connect env))) (\<lambda>_.
          bindP (set_client (Some (c\<lparr>rt_ws := True, rt_connected := True\<rparr>))) (\<lambda>_.
          bindP (realtime_ws_send env SessionUpdate) (\<lambda>_.
          returnP True))))
         (\<lambda>e. returnP False))"

text \<open>
  \<^verbatim>\<open>send_audio\<close>: the message carries the base64 text of the bytes; the log keeps the
  bytes.
\<close>

definition client_send_audio :: "'s env \<Rightarrow> bytes \<Rightarrow> (('s, 'z) session_scheme, unit) prog" where
  "client_send_audio env audio_data =
     with_client (\<lambda>c.
       if \<not> rt_connected c \<or> \<not> rt_ws c then returnP ()
       else realtime_ws_send env (InputAudioBufferAppend audio_data))"

definition client_commit_audio :: "'s env \<Rightarrow> (('s, 'z) session_scheme, unit) prog" where
  "client_commit_audio env =
     with_client (\<lambda>c.
       if \<not> rt_connected c \<or> \<not> rt_ws c then returnP ()
       else bindP (realtime_ws_send env InputAudioBufferCommit) (\<lambda>_.
            realtime_ws_send env ResponseCreate))"

text \<open>\<^verbatim>\<open>transcription if transcription else None\<close>\<close>

definition or_none :: "unicode \<Rightarrow> unicode option" where
  "or_none transcription = (if transcription \<noteq> [] then Some transcription else None)"

text \<open>
  The loop of \<^verbatim>\<open>receive_messages\<close> over the messages the service sends before the
  iteration ends; the second component tells whether \<^verbatim>\<open>ConnectionClosed\<close> was caught
  (\<^verbatim>\<open>self._connected = False\<close>).  A service that neither answers nor closes is not
  modelled: the list is finite.
\<close>

fun receive_loop :: "unicode \<Rightarrow> rt_in list \<Rightarrow> rt_end \<Rightarrow> unicode option \<times> bool" where
  "receive_loop transcription [] ending =
     (case ending of
        StreamEnds \<Rightarrow> (or_none transcription, False)
      | ConnectionClosed \<Rightarrow> (or_none transcription, True)
      | ReceiveFails \<Rightarrow> (or_none transcription, False))"
| "receive_loop transcription (TranscriptionCompleted transcript # ms) ending =
     (Some transcript, False)"
| "receive_loop transcription (ResponseTextDone text # ms) ending =
     receive_loop (if text \<noteq> [] \<and> transcription = [] then text else transcription) ms ending"
| "receive_loop transcription (ResponseDone # ms) ending =
     (if transcription \<noteq> [] then (Some transcription, False)
      else receive_loop transcription ms ending)"
| "receive_loop transcription (ErrorEvent # ms) ending = (None, False)"
| "receive_loop transcription (OtherEvent # ms) ending = receive_loop transcription ms ending"
| "receive_loop transcription (NotJSON # ms) ending = (or_none transcription, False)"

definition client_receive_messages ::
    "'s env \<Rightarrow> (('s, 'z) session_scheme, unicode option) prog" where
  "client_receive_messages env =
     with_client (\<lambda>c.
       if \<not> rt_connected c \<or> \<not> rt_ws c then returnP None
       else
         bindP (log_call RealtimeReceive) (\<lambda>_.
         case receive_loop [] (realtime_inbox env) (realtime_inbox_end env) of
           (result, closed) \<Rightarrow>
             bindP (if closed then set_client (Some (c\<lparr>rt_connected := False\<rparr>)) else returnP ())
               (\<lambda>_. returnP result)))"

definition client_close :: "'s env \<Rightarrow> (('s, 'z) session_scheme, unit) prog" where
  "client_close env =
     with_client (\<lambda>c.
       bindP (set_client (Some (c\<lparr>rt_connected := False\<rparr>))) (\<lambda>_.
       if rt_ws c
       then bindP (collaborator RealtimeClose (option_outcome (realtime_close env))) (\<lambda>_.
            set_client (Some (c\<lparr>rt_connected := False, rt_ws := False\<rparr>)))
       else returnP ()))"

section \<open>voice.py: the voice session\<close>

text \<open>
  \<^verbatim>\<open>send_event\<close>: \<^verbatim>\<open>websocket.send_json\<close> raises when the client connection is gone; what
  was sent before decides.
\<close>

definition send_event :: "'s env \<Rightarrow> event \<Rightarrow> (('s, 'z) world_scheme, unit) prog" where
  "send_event env ev w =
     (case websocket_send_json env (sent w) ev of
        None \<Rightarrow> (Inr (), w\<lparr>sent := sent w @ [ev]\<rparr>)
      | Some e \<Rightarrow> (Inl e, w))"

text \<open>Python truth value of a JSON value, and \<^verbatim>\<open>d.get(k, default)\<close> on a value.\<close>

fun falsy :: "json \<Rightarrow> bool" where
  "falsy JNull = True"
| "falsy (JBool b) = (\<not> b)"
| "falsy (JInt i) = (i = 0)"
| "falsy (JStr s) = (s = [])"
| "falsy (JArr xs) = (xs = [])"
| "falsy (JObj d) = (d = [])"

definition dict_get :: "json \<Rightarrow> string \<Rightarrow> json \<Rightarrow> exn + json" where
  "dict_get d k dflt =
     (case d of
        JObj kvs \<Rightarrow> Inr (case map_of kvs k of None \<Rightarrow> dflt | Some v \<Rightarrow> v)
      | _ \<Rightarrow> Inl (AttributeError ''get''))"

text \<open>
  \<^verbatim>\<open>str.strip()\<close> removes leading and trailing whitespace: the code points for which
  CPython's \<^verbatim>\<open>_PyUnicode_IsWhitespace\<close> holds (U+0009 to U+000D, U+001C to U+0020, U+0085,
  U+00A0, U+1680, U+2000 to U+200A, U+2028, U+2029, U+202F, U+205F, U+3000).
\<close>

definition is_space :: "nat \<Rightarrow> bool" where
  "is_space c =
     ((0x09 \<le> c \<and> c \<le> 0x0D) \<or> (0x1C \<le> c \<and> c \<le> 0x20) \<or> c = 0x85 \<or> c = 0xA0 \<or> c = 0x1680
      \<or> (0x2000 \<le> c \<and> c \<le> 0x200A) \<or> c = 0x2028 \<or> c = 0x2029 \<or> c = 0x202F \<or> c = 0x205F
      \<or> c = 0x3000)"

definition strip :: "unicode \<Rightarrow> unicode" where
  "strip s = rev (dropWhile is_space (rev (dropWhile is_space s)))"

fun send_audio_chunks :: "'s env \<Rightarrow> bytes list \<Rightarrow> (('s, 'z) world_scheme, unit) prog" where
  "send_audio_chunks env [] w = (Inr (), w)"
| "send_audio_chunks env (chunk # chunks) w =
     (case send_event env (AudioResponse (b64encode env chunk)) w of
        (Inl e, w') \<Rightarrow> (Inl e, w')
      | (Inr _, w') \<Rightarrow> send_audio_chunks env chunks w')"

definition stream_audio_response :: "'s env \<Rightarrow> json \<Rightarrow> (('s, 'z) world_scheme, unit) prog" where
  "stream_audio_response env text =
     (if falsy text then send_event env AudioComplete
      else
        try_except
          (bindP (send_event env AudioStart) (\<lambda>_.
           bindP (log_call (TextToSpeech text)) (\<lambda>_.
           bindP (send_audio_chunks env (fst (text_to_speech_stream env text))) (\<lambda>_.
           bindP (case snd (text_to_speech_stream env text) of
                    None \<Rightarrow> returnP ()
                  | Some e \<Rightarrow> raiseP e) (\<lambda>_.
           send_event env AudioComplete)))))
          (\<lambda>e. send_event env (Error (''TTS error: '' @ exn_str e))))"

text \<open>\<^verbatim>\<open>_run_council_process\<close> once the conversation is found.\<close>

definition council_process ::
    "'s env \<Rightarrow> string \<Rightarrow> string \<Rightarrow> bool \<Rightarrow> (('s, 'z) world_scheme, unit) prog" where
  "council_process env conversation_id user_query is_first_message =
     bindP (add_user_message env conversation_id user_query) (\<lambda>_.
     bindP (if is_first_message then create_title_task user_query else returnP ()) (\<lambda>_.
     bindP (send_event env Stage1Start) (\<lambda>_.
     bindP (stage1_collect_responses env user_query) (\<lambda>stage1_results.
     bindP (send_event env (Stage1Complete stage1_results)) (\<lambda>_.
     bindP (send_event env Stage2Start) (\<lambda>_.
     bindP (stage2_collect_rankings env user_query stage1_results)
       (\<lambda>(stage2_results, label_to_model).
     bindP (calculate_aggregate_rankings env stage2_results label_to_model)
       (\<lambda>aggregate_rankings.
     bindP (send_event env (Stage2Complete stage2_results label_to_model aggregate_rankings))
       (\<lambda>_.
     bindP (send_event env Stage3Start) (\<lambda>_.
     bindP (stage3_synthesize_final env user_query stage1_results stage2_results)
       (\<lambda>stage3_result.
     bindP (send_event env (Stage3Complete stage3_result)) (\<lambda>_.
     bindP (add_assistant_message env conversation_id stage1_results stage2_results
              stage3_result) (\<lambda>_.
     bindP (if is_first_message
            then bindP (await_title_task env user_query) (\<lambda>title.
                 bindP (update_conversation_title env conversation_id title) (\<lambda>_.
                 send_event env (TitleComplete title)))
            else returnP ()) (\<lambda>_.
     bindP (\<lambda>w. (dict_get stage3_result ''response'' (JStr []), w)) (\<lambda>text.
     stream_audio_response env text)))))))))))))))"

definition run_council_process ::
    "'s env \<Rightarrow> string \<Rightarrow> string \<Rightarrow> (('s, 'z) world_scheme, unit) prog" where
  "run_council_process env conversation_id user_query w =
     (case storage_get_conversation env (store w) conversation_id of
        None \<Rightarrow> send_event env (Error ''Conversation not found'') w
      | Some conversation \<Rightarrow>
          council_process env conversation_id user_query
            (length (conv_messages conversation) = 0) w)"

definition start_recording :: "'s env \<Rightarrow> (('s, 'z) session_scheme, unit) prog" where
  "start_recording env s =
     bindP (client_connect env) (\<lambda>connected.
       if \<not> connected
       then send_event env (Error ''Failed to connect to transcription service'')
       else send_event env RecordingStarted)
     (s\<lparr>audio_chunks := [], is_recording := True,
        realtime_client := Some \<lparr>rt_ws = False, rt_connected = False\<rparr>\<rparr>)"

definition stop_recording :: "'s env \<Rightarrow> string \<Rightarrow> (('s, 'z) session_scheme, unit) prog" where
  "stop_recording env conversation_id s =
     (let s1 = s\<lparr>is_recording := False\<rparr> in
      case realtime_client s1 of
        None \<Rightarrow> send_event env (Error ''No recording session active'') s1
      | Some _ \<Rightarrow>
          try_finally
            (try_except
               (bindP (client_commit_audio env) (\<lambda>_.
                bindP (client_receive_messages env) (\<lambda>received.
                case received of
                  None \<Rightarrow> send_event env (Error ''No speech detected'')
                | Some transcription \<Rightarrow>
                    if transcription = [] \<or> strip transcription = []
                    then send_event env (Error ''No speech detected'')
                    else
                      bindP (send_event env (Transcription transcription)) (\<lambda>_.
                      run_council_process env conversation_id (utf8 transcription)))))
               (\<lambda>e. send_event env (Error (exn_str e))))
            (bindP (client_close env) (\<lambda>_. set_client None))
            s1)"

text \<open>A message from the client, by its \<^verbatim>\<open>type\<close>; \<open>Audio\<close> carries \<^verbatim>\<open>message.get("data", "")\<close>.\<close>

datatype client_message =
    StartRecording
  | Audio string
  | StopRecording
  | Close
  | OtherMessage

definition handle_message ::
    "'s env \<Rightarrow> string \<Rightarrow> client_message \<Rightarrow> (('s, 'z) session_scheme, bool) prog" where
  "handle_message env conversation_id message =
     (case message of
        StartRecording \<Rightarrow> bindP (start_recording env) (\<lambda>_. returnP True)
      | Audio audio_data \<Rightarrow>
          if audio_data \<noteq> [] then
            bindP (\<lambda>s. (b64decode env audio_data, s)) (\<lambda>decoded.
            bindP (\<lambda>s. (Inr (), s\<lparr>audio_chunks := audio_chunks s @ [decoded]\<rparr>)) (\<lambda>_.
            bindP (\<lambda>s. if realtime_client s \<noteq> None then client_send_audio env decoded s
                        else (Inr (), s)) (\<lambda>_.
            returnP True)))
          else returnP True
      | StopRecording \<Rightarrow> bindP (stop_recording env conversation_id) (\<lambda>_. returnP True)
      | Close \<Rightarrow> returnP False
      | OtherMessage \<Rightarrow> returnP True)"

text \<open>
  The \<^verbatim>\<open>while True\<close> loop of \<^verbatim>\<open>run\<close> over the messages the client sends;
  \<^verbatim>\<open>receive_json\<close> raises \<^verbatim>\<open>WebSocketDisconnect\<close> once the client is gone.
\<close>

fun message_loop ::
    "'s env \<Rightarrow> string \<Rightarrow> client_message list \<Rightarrow> (('s, 'z) session_scheme, unit) prog" where
  "message_loop env conversation_id [] s = (Inl WebSocketDisconnect, s)"
| "message_loop env conversation_id (m # ms) s =
     (case handle_message env conversation_id m s of
        (Inl e, s') \<Rightarrow> (Inl e, s')
      | (Inr should_continue, s') \<Rightarrow>
          if \<not> should_continue then (Inr (), s')
          else message_loop env conversation_id ms s')"

definition run ::
    "'s env \<Rightarrow> string \<Rightarrow> client_message list \<Rightarrow> (('s, 'z) session_scheme, unit) prog" where
  "run env conversation_id ms =
     try_finally
       (try_except (message_loop env conversation_id ms)
          (\<lambda>e. try_except (send_event env (Error (exn_str e))) (\<lambda>_. returnP ())))
       (\<lambda>s. if realtime_client s \<noteq> None then client_close env s else (Inr (), s))"

section \<open>main.py: the voice endpoint\<close>

text \<open>
  How the WebSocket endpoint ends: closed before \<^verbatim>\<open>accept\<close> with a code and a reason, an
  exception before \<^verbatim>\<open>accept\<close>, or accepted and the session run to its end.
\<close>

datatype ws_result =
    Closed nat string
  | RaisedJwt jwt_error
  | Raised exn
  | SessionEnded

definition new_session :: "'s world \<Rightarrow> 's session" where
  "new_session w =
     \<lparr>store = store w, sent = sent w, calls = calls w,
      audio_chunks = [], realtime_client = None, is_recording = False\<rparr>"

definition world_of :: "'s session \<Rightarrow> 's world" where
  "world_of s = \<lparr>store = store s, sent = sent s, calls = calls s\<rparr>"

definition voice_chat_endpoint ::
    "'s env \<Rightarrow> string \<Rightarrow> string option \<Rightarrow> client_message list \<Rightarrow> 's world
       \<Rightarrow> ws_result \<times> 's world" where
  "voice_chat_endpoint env conversation_id token ms w =
     (case token of
        None \<Rightarrow> (Closed 4001 ''Authentication required'', w)
      | Some tok \<Rightarrow>
        if tok = [] then (Closed 4001 ''Authentication required'', w)
        else
        case verify_token (jwt_library_decode env) tok of
          Inl e \<Rightarrow> (RaisedJwt e, w)
        | Inr None \<Rightarrow> (Closed 4001 ''Invalid token'', w)
        | Inr (Some payload) \<Rightarrow>
            (case get_user_by_id (user_table env) (map_of payload ''sub'') of
               None \<Rightarrow> (Closed 4001 ''User not found'', w)
             | Some current_user \<Rightarrow>
                 if OPENAI_API_KEY env = None \<or> OPENAI_API_KEY env = Some []
                 then (Closed 4001 ''OpenAI API key not configured'', w)
                 else
                   (case storage_get_conversation env (store w) conversation_id of
                      None \<Rightarrow> (Closed 4004 ''Conversation not found'', w)
                    | Some conversation \<Rightarrow>
                        (case subscript current_user ''id'' of
                           Inl e \<Rightarrow> (Raised e, w)
                         | Inr uid \<Rightarrow>
                             if conv_user_id conversation \<noteq> uid
                             then (Closed 4003 ''Access denied'', w)
                             else
                               (case run env conversation_id ms (new_session w) of
                                  (Inr _, s) \<Rightarrow> (SessionEnded, world_of s)
                                | (Inl WebSocketDisconnect, s) \<Rightarrow> (SessionEnded, world_of s)
                                | (Inl e, s) \<Rightarrow>
                                    (SessionEnded,
                                     world_of (snd (try_except (send_event env (Error (exn_str e)))
                                                      (\<lambda>_. returnP ()) s))))))))"

section \<open>Stage 1 of the council\<close>

text \<open>
  Modelled from the spec: \<^verbatim>\<open>stage1_collect_responses\<close> lives in \<^verbatim>\<open>backend/council.py\<close>,
  which is not among the available sources.  The spec (4.1, ResponseCollector) issues one
  chat-completion call per configured model, concurrently; a call that errors or times out
  yields a ModelAnswer carrying a failure reason; the stage completes once every call has
  settled; the answers come in the order of the configured list.  A ModelAnswer is
  \<open>{model identifier, answer text | failure reason, latency}\<close>.
\<close>

record model_answer =
  model :: string
  outcome :: "string + string"
  latency :: nat

text \<open>
  Modelled from the spec: the ModelAnswer of one model.  \<open>complete_chat\<close> is the provider
  call: a failure reason (\<open>Inl\<close>) or the answer text (\<open>Inr\<close>), and the time it took.
\<close>

definition answer_of :: "(string \<Rightarrow> (string + string) \<times> nat) \<Rightarrow> string \<Rightarrow> model_answer" where
  "answer_of complete_chat m =
     \<lparr>model = m, outcome = fst (complete_chat m), latency = snd (complete_chat m)\<rparr>"

text \<open>
  Modelled from the spec: the call for the model at position \<open>i\<close> settles and its answer
  is stored at position \<open>i\<close>.
\<close>

definition settle ::
    "(string \<Rightarrow> (string + string) \<times> nat) \<Rightarrow> string list \<Rightarrow> model_answer option list \<Rightarrow> nat
       \<Rightarrow> model_answer option list" where
  "settle complete_chat models slots i =
     (if i < length models
      then slots[i := Some (answer_of complete_chat (models ! i))]
      else slots)"

text \<open>
  Modelled from the spec: the calls settle in \<open>completion_order\<close> (positions of the model
  list); the stage returns once every slot is filled, and does not return (\<open>None\<close>) while
  a call is outstanding.
\<close>

definition response_collector ::
    "(string \<Rightarrow> (string + string) \<times> nat) \<Rightarrow> string list \<Rightarrow> nat list
       \<Rightarrow> model_answer list option" where
  "response_collector complete_chat models completion_order =
     those (foldl (settle complete_chat models) (replicate (length models) None) completion_order)"

section \<open>Reading the effects of a handler\<close>

text \<open>The \<^verbatim>\<open>type\<close> field of an event.\<close>

fun event_type :: "event \<Rightarrow> string" where
  "event_type Stage1Start = ''stage1_start''"
| "event_type (Stage1Complete _) = ''stage1_complete''"
| "event_type Stage2Start = ''stage2_start''"
| "event_type (Stage2Complete _ _ _) = ''stage2_complete''"
| "event_type Stage3Start = ''stage3_start''"
| "event_type (Stage3Complete _) = ''stage3_complete''"
| "event_type (TitleComplete _) = ''title_complete''"
| "event_type Complete = ''complete''"
| "event_type (Error _) = ''error''"
| "event_type RecordingStarted = ''recording_started''"
| "event_type (Transcription _) = ''transcription''"
| "event_type AudioStart = ''audio_start''"
| "event_type (AudioResponse _) = ''audio_response''"
| "event_type AudioComplete = ''audio_complete''"

definition stage_event_types :: "string list" where
  "stage_event_types =
     [''stage1_start'', ''stage1_complete'', ''stage2_start'', ''stage2_complete'',
      ''stage3_start'', ''stage3_complete'']"

text \<open>The function behind a logged call, without its arguments.\<close>

datatype call_kind =
    StoreUserMessage
  | StoreTitle
  | StoreAssistantMessage
  | StartTitle
  | AwaitTitle
  | Stage1
  | Stage2
  | Aggregate
  | Stage3
  | FullCouncil
  | Transcriber
  | Speech

fun kind_of :: "call \<Rightarrow> call_kind" where
  "kind_of (AddUserMessage _ _) = StoreUserMessage"
| "kind_of (UpdateConversationTitle _ _) = StoreTitle"
| "kind_of (AddAssistantMessage _ _ _ _) = StoreAssistantMessage"
| "kind_of (TitleStart _) = StartTitle"
| "kind_of TitleAwait = AwaitTitle"
| "kind_of (Stage1CollectResponses _) = Stage1"
| "kind_of (Stage2CollectRankings _ _) = Stage2"
| "kind_of (CalculateAggregateRankings _ _) = Aggregate"
| "kind_of (Stage3SynthesizeFinal _ _ _) = Stage3"
| "kind_of (RunFullCouncil _) = FullCouncil"
| "kind_of RealtimeConnect = Transcriber"
| "kind_of (RealtimeSend _) = Transcriber"
| "kind_of RealtimeReceive = Transcriber"
| "kind_of RealtimeClose = Transcriber"
| "kind_of (TextToSpeech _) = Speech"

text \<open>What a handler added to the events and to the call log.\<close>

definition emitted :: "('s, 'z) world_scheme \<Rightarrow> ('s, 'y) world_scheme \<Rightarrow> event list" where
  "emitted w w' = drop (length (sent w)) (sent w')"

definition new_calls :: "('s, 'z) world_scheme \<Rightarrow> ('s, 'y) world_scheme \<Rightarrow> call_kind list" where
  "new_calls w w' = map kind_of (drop (length (calls w)) (calls w'))"

text \<open>
  The order of calls on the three surfaces, for a first message and for a later one:
  the streaming endpoint, the voice session, the atomic endpoint.
\<close>

definition stream_order :: "bool \<Rightarrow> call_kind list" where
  "stream_order first =
     [StoreUserMessage] @ (if first then [StartTitle] else [])
     @ [Stage1, Stage2, Aggregate, Stage3]
     @ (if first then [AwaitTitle, StoreTitle] else [])
     @ [StoreAssistantMessage]"

definition voice_order :: "bool \<Rightarrow> call_kind list" where
  "voice_order first =
     [StoreUserMessage] @ (if first then [StartTitle] else [])
     @ [Stage1, Stage2, Aggregate, Stage3, StoreAssistantMessage]
     @ (if first then [AwaitTitle, StoreTitle] else [])
     @ [Speech]"

definition atomic_order :: "bool \<Rightarrow> call_kind list" where
  "atomic_order first =
     [StoreUserMessage]
     @ (if first then [StartTitle, AwaitTitle, StoreTitle] else [])
     @ [FullCouncil, StoreAssistantMessage]"

text \<open>The first \<open>a\<close> of a list comes before some \<open>b\<close>.\<close>

fun occurs_before :: "'a \<Rightarrow> 'a \<Rightarrow> 'a list \<Rightarrow> bool" where
  "occurs_before a b [] = False"
| "occurs_before a b (x # xs) = (if x = a then b \<in> set xs else occurs_before a b xs)"

text \<open>The close code of an endpoint result, when the connection was closed before \<^verbatim>\<open>accept\<close>.\<close>

fun close_code :: "ws_result \<Rightarrow> nat option" where
  "close_code (Closed code reason) = Some code"
| "close_code _ = None"

text \<open>No write to the conversation store raises.\<close>

definition storage_writes_return :: "'s env \<Rightarrow> bool" where
  "storage_writes_return env =
     (\<forall>st conversation_id.
        (\<forall>content. snd (storage_add_user_message env st conversation_id content) = None)
      \<and> (\<forall>title. snd (storage_update_conversation_title env st conversation_id title) = None)
      \<and> (\<forall>s1 s2 s3. snd (storage_add_assistant_message env st conversation_id s1 s2 s3) = None))"

text \<open>A text of whitespace characters only (the empty text among them).\<close>

definition whitespace_only :: "unicode \<Rightarrow> bool" where
  "whitespace_only t = list_all is_space t"

text \<open>
  Handler code whose collaborator calls are, in this order, of the kinds \<open>ks\<close> and then
  an initial segment of \<open>opt\<close> when it returns, and an initial segment of \<open>ks @ opt\<close>
  when it raises.
\<close>

definition makes :: "call_kind list \<Rightarrow> call_kind list \<Rightarrow> (('s, 'z) world_scheme, 'a) prog \<Rightarrow> bool" where
  "makes ks opt m =
     (\<forall>w. \<exists>cs. calls (snd (m w)) = calls w @ cs
            \<and> (case fst (m w) of
                  Inr _ \<Rightarrow> \<exists>t. map kind_of cs = ks @ t \<and> prefix t opt
                | Inl _ \<Rightarrow> prefix (map kind_of cs) (ks @ opt)))"

text \<open>A piece of handler code that makes no collaborator call.\<close>

definition keeps_calls :: "(('s, 'z) world_scheme, 'a) prog \<Rightarrow> bool" where
  "keeps_calls m = (\<forall>w. calls (snd (m w)) = calls w)"

section \<open>Concrete data for the examples\<close>

definition alice :: user_row where
  "alice = \<lparr>row_id = ''u1'', row_email = ''alice@example.com'', row_password_hash = ''$2b$12$hashA'',
            row_name = ''Alice'', row_is_admin = True, row_created_at = ''2025-01-01T00:00:00''\<rparr>"

definition bob :: user_row where
  "bob = \<lparr>row_id = ''u2'', row_email = ''bob@example.com'', row_password_hash = ''$2b$12$hashB'',
          row_name = ''Bob'', row_is_admin = False, row_created_at = ''2025-02-01T00:00:00''\<rparr>"

definition demo_db :: "user_row list" where
  "demo_db = [alice, bob]"

definition demo_verify_password :: "string \<Rightarrow> json \<Rightarrow> bool" where
  "demo_verify_password pw h = (h = JStr (''$2b$12$hash'' @ pw))"

definition demo_create_token :: "json \<Rightarrow> json \<Rightarrow> json \<Rightarrow> string" where
  "demo_create_token uid email adm = (case uid of JStr s \<Rightarrow> ''tok-'' @ s | _ \<Rightarrow> ''tok'')"

definition demo_jwt_decode :: "string \<Rightarrow> jwt_error + pydict" where
  "demo_jwt_decode token =
     (if token = ''tok-u1'' then Inr [(''sub'', JStr ''u1''), (''email'', JStr ''alice@example.com'')]
      else if token = ''tok-u2'' then Inr [(''sub'', JStr ''u2''), (''email'', JStr ''bob@example.com'')]
      else if token = ''tok-u9'' then Inr [(''sub'', JStr ''u9'')]
      else if token = ''tok-old'' then Inl ExpiredSignatureError
      else Inl InvalidTokenError)"

text \<open>A store of two conversations: an empty one of Alice's, and one of Bob's with a turn.\<close>

type_synonym demo_store = "(string \<times> conversation) list"

definition demo_append :: "demo_store \<Rightarrow> string \<Rightarrow> json \<Rightarrow> demo_store" where
  "demo_append st conversation_id m =
     map (\<lambda>(k, c). if k = conversation_id then (k, c\<lparr>conv_messages := conv_messages c @ [m]\<rparr>)
                    else (k, c)) st"

definition demo_store0 :: demo_store where
  "demo_store0 =
     [(''c1'', \<lparr>conv_user_id = JStr ''u1'', conv_messages = []\<rparr>),
      (''c2'', \<lparr>conv_user_id = JStr ''u2'', conv_messages = [JStr ''earlier turn'']\<rparr>)]"

definition demo_env :: "demo_store env" where
  "demo_env =
     \<lparr>storage_get_conversation = (\<lambda>st conversation_id. map_of st conversation_id),
      storage_add_user_message =
        (\<lambda>st conversation_id content. (demo_append st conversation_id (JStr content), None)),
      storage_update_conversation_title = (\<lambda>st conversation_id title. (st, None)),
      storage_add_assistant_message =
        (\<lambda>st conversation_id s1 s2 s3. (demo_append st conversation_id (JArr [s1, s2, s3]), None)),
      council_generate_conversation_title = (\<lambda>q. Inr ''Title''),
      council_stage1_collect_responses = (\<lambda>q. Inr (JStr ''answers'')),
      council_stage2_collect_rankings = (\<lambda>q s1. Inr (JStr ''rankings'', JStr ''labels'')),
      council_calculate_aggregate_rankings = (\<lambda>s2 l. Inr (JStr ''aggregate'')),
      council_stage3_synthesize_final = (\<lambda>q s1 s2. Inr (JObj [(''response'', JStr ''final'')])),
      council_run_full_council =
        (\<lambda>q. Inr (JStr ''answers'', JStr ''rankings'', JObj [(''response'', JStr ''final'')],
                  JStr ''metadata'')),
      user_table = demo_db,
      jwt_library_decode = demo_jwt_decode,
      OPENAI_API_KEY = Some ''sk-demo'',
      b64decode = (\<lambda>t. if t = ''aGk='' then Inr ''hi'' else Inl (Exception ''Incorrect padding'')),
      b64encode = (\<lambda>b. if b = ''hi'' then ''aGk='' else ''bXAz''),
      realtime_connect = None,
      realtime_send = (\<lambda>m. None),
      realtime_inbox = [OtherEvent, TranscriptionCompleted [0x20, 0xA0, 0x2003]],
      realtime_inbox_end = StreamEnds,
      realtime_close = None,
      text_to_speech_stream = (\<lambda>t. ([''mp3''], None)),
      websocket_send_json = (\<lambda>evs ev. None)\<rparr>"

text \<open>The same collaborators, with a Stage 1 that raises.\<close>

definition failing_env :: "demo_store env" where
  "failing_env =
     demo_env\<lparr>council_stage1_collect_responses := (\<lambda>q. Inl (Exception ''provider down''))\<rparr>"

definition demo_world :: "demo_store world" where
  "demo_world = \<lparr>store = demo_store0, sent = [], calls = []\<rparr>"

text \<open>A voice session that is recording, with an open transcription connection.\<close>

definition recording_session :: "demo_store session" where
  "recording_session =
     \<lparr>store = demo_store0, sent = [RecordingStarted], calls = [RealtimeConnect, RealtimeSend SessionUpdate],
      audio_chunks = [''hi''], realtime_client = Some \<lparr>rt_ws = True, rt_connected = True\<rparr>,
      is_recording = True\<rparr>"

definition idle_session :: "demo_store session" where
  "idle_session = new_session demo_world"

text \<open>Three council models; the second one times out.\<close>

definition demo_chat :: "string \<Rightarrow> (string + string) \<times> nat" where
  "demo_chat m = (if m = ''m2'' then (Inl ''timeout'', 120) else (Inr (''answer of '' @ m), 7))"

section \<open>Password hashes are never returned\<close>

lemma keys_public_columns:
  "keys (public_columns r) = [''id'', ''email'', ''name'', ''is_admin'', ''created_at'']"
  by (simp add: keys_def public_columns_def)

lemma keys_all_columns:
  "keys (all_columns r) = [''id'', ''email'', ''password_hash'', ''name'', ''is_admin'', ''created_at'']"
  by (simp add: keys_def all_columns_def)

lemma keys_strip_hash:
  "''password_hash'' \<notin> set (keys (filter (\<lambda>(k, v). k \<noteq> ''password_hash'') d))"
  by (auto simp: keys_def)

lemma get_user_by_email_columns:
  assumes "get_user_by_email db email = Some user"
  shows "\<exists>r \<in> set db. user = all_columns r"
proof -
  from assms obtain r where f: "find (\<lambda>r. row_email r = email) db = Some r" and u: "user = all_columns r"
    by (auto simp: get_user_by_email_def split: option.splits)
  from f have "r \<in> set db"
    by (auto simp: find_Some_iff)
  with u show ?thesis by blast
qed

text \<open>
  C10.  The user dictionary in a login response has no \<^verbatim>\<open>password_hash\<close> key and keeps
  every other column; the dictionaries returned by \<^verbatim>\<open>get_user_by_id\<close> and by
  \<^verbatim>\<open>list_users\<close> have no \<^verbatim>\<open>password_hash\<close> key; the dictionary returned by
  \<^verbatim>\<open>get_user_by_email\<close> has one.
\<close>

theorem password_hash_not_exposed:
  "(login vp ct db email password = Returned (token, user_response) \<longrightarrow>
      ''password_hash'' \<notin> set (keys user_response) \<and>
      keys user_response = [''id'', ''email'', ''name'', ''is_admin'', ''created_at''])
   \<and> (get_user_by_id db user_id = Some u \<longrightarrow> ''password_hash'' \<notin> set (keys u))
   \<and> (\<forall>u \<in> set (list_users db). ''password_hash'' \<notin> set (keys u))
   \<and> (get_user_by_email db email = Some user \<longrightarrow> ''password_hash'' \<in> set (keys user))"
proof (intro conjI impI ballI)
  assume l: "login vp ct db email password = Returned (token, user_response)"
  then obtain user where g: "get_user_by_email db email = Some user"
    and r: "user_response = filter (\<lambda>(k, v). k \<noteq> ''password_hash'') user"
    by (auto simp: login_def Let_def split: option.splits if_splits sum.splits)
  from r show "''password_hash'' \<notin> set (keys user_response)"
    using keys_strip_hash by simp
  from get_user_by_email_columns [OF g] obtain row where "user = all_columns row" by blast
  with r show "keys user_response = [''id'', ''email'', ''name'', ''is_admin'', ''created_at'']"
    by (simp add: keys_def all_columns_def)
next
  assume "get_user_by_id db user_id = Some u"
  then obtain r where "u = public_columns r"
    by (auto simp: get_user_by_id_def split: option.splits)
  then show "''password_hash'' \<notin> set (keys u)"
    by (simp add: keys_public_columns)
next
  fix u assume "u \<in> set (list_users db)"
  then obtain r where "u = public_columns r"
    by (auto simp: list_users_def)
  then show "''password_hash'' \<notin> set (keys u)"
    by (simp add: keys_public_columns)
next
  assume g: "get_user_by_email db email = Some user"
  from get_user_by_email_columns [OF g] obtain row where "user = all_columns row" by blast
  then show "''password_hash'' \<in> set (keys user)"
    by (simp add: keys_all_columns)
qed

theorem password_hash_not_exposed_witness:
  "login demo_verify_password demo_create_token demo_db ''alice@example.com'' ''A''
     = Returned (''tok-u1'',
         [(''id'', JStr ''u1''), (''email'', JStr ''alice@example.com''), (''name'', JStr ''Alice''),
          (''is_admin'', JBool True), (''created_at'', JStr ''2025-01-01T00:00:00'')])
   \<and> get_user_by_id demo_db (Some (JStr ''u2'')) = Some (public_columns bob)
   \<and> list_users demo_db = [public_columns bob, public_columns alice]
   \<and> get_user_by_email demo_db ''alice@example.com'' = Some (all_columns alice)
   \<and> ''password_hash'' \<notin> set (keys (public_columns bob))
   \<and> list_all (\<lambda>u. ''password_hash'' \<notin> set (keys u)) (list_users demo_db)
   \<and> ''password_hash'' \<in> set (keys (all_columns alice))"
proof -
  have l: "login demo_verify_password demo_create_token demo_db ''alice@example.com'' ''A''
     = Returned (''tok-u1'',
         [(''id'', JStr ''u1''), (''email'', JStr ''alice@example.com''), (''name'', JStr ''Alice''),
          (''is_admin'', JBool True), (''created_at'', JStr ''2025-01-01T00:00:00'')])"
    by (simp add: login_def get_user_by_email_def demo_db_def alice_def bob_def all_columns_def
          subscript_def demo_verify_password_def demo_create_token_def)
  have g: "get_user_by_id demo_db (Some (JStr ''u2'')) = Some (public_columns bob)"
    by (simp add: get_user_by_id_def demo_db_def alice_def bob_def)
  have e: "get_user_by_email demo_db ''alice@example.com'' = Some (all_columns alice)"
    by (simp add: get_user_by_email_def demo_db_def alice_def bob_def)
  have u: "list_users demo_db = [public_columns bob, public_columns alice]"
    by (simp add: list_users_def demo_db_def alice_def bob_def)
  from password_hash_not_exposed
         [of demo_verify_password demo_create_token demo_db "''alice@example.com''" "''A''"
             "''tok-u1''" _ "Some (JStr ''u2'')" "public_columns bob" "all_columns alice"]
       l g e u
  show ?thesis by (simp add: list_all_iff)
qed

section \<open>Token verification\<close>




section \<open>Stage 1 answers come in the configured order\<close>

lemma length_settle [simp]: "length (settle cc models slots i) = length slots"
  by (simp add: settle_def)

lemma length_foldl_settle [simp]: "length (foldl (settle cc models) slots order) = length slots"
  by (induction order arbitrary: slots) simp_all

lemma nth_settle:
  "j < length slots \<Longrightarrow>
     settle cc models slots i ! j =
       (if i = j \<and> i < length models then Some (answer_of cc (models ! i)) else slots ! j)"
  by (simp add: settle_def nth_list_update)

lemma nth_foldl_settle:
  assumes "length slots = length models" and "j < length models"
  shows "foldl (settle cc models) slots order ! j =
           (if j \<in> set order then Some (answer_of cc (models ! j)) else slots ! j)"
  using assms
proof (induction order rule: rev_induct)
  case Nil
  then show ?case by simp
next
  case (snoc i order)
  then show ?case
    by (simp add: nth_settle)
qed

lemma those_map_Some: "those (map (\<lambda>x. Some (f x)) xs) = Some (map f xs)"
  by (induction xs) simp_all

lemma all_settled:
  assumes "set order = {..<length models}"
  shows "foldl (settle cc models) (replicate (length models) None) order
           = map (\<lambda>m. Some (answer_of cc m)) models"
proof (rule nth_equalityI)
  show "length (foldl (settle cc models) (replicate (length models) None) order)
          = length (map (\<lambda>m. Some (answer_of cc m)) models)"
    by simp
next
  fix j assume "j < length (foldl (settle cc models) (replicate (length models) None) order)"
  then have j: "j < length models" by simp
  with assms have "j \<in> set order" by simp
  with j show "foldl (settle cc models) (replicate (length models) None) order ! j
                 = map (\<lambda>m. Some (answer_of cc m)) models ! j"
    by (simp add: nth_foldl_settle)
qed

text \<open>
  C2.  Once every one of the N concurrent calls has settled, in whatever order, Stage 1
  returns exactly N answers, the answer at each position being the one of the model
  configured at that position; each answer carries either the answer text or a failure
  reason.
\<close>

theorem response_collector_order:
  assumes "set completion_order = {..<length models}"
  shows "\<exists>answers.
           response_collector complete_chat models completion_order = Some answers
         \<and> answers = map (answer_of complete_chat) models
         \<and> length answers = length models
         \<and> map model answers = models
         \<and> (\<forall>a \<in> set answers. (\<exists>text. outcome a = Inr text) \<or> (\<exists>reason. outcome a = Inl reason))"
proof -
  have "response_collector complete_chat models completion_order
          = Some (map (answer_of complete_chat) models)"
    by (simp add: response_collector_def all_settled [OF assms] those_map_Some)
  moreover have "map model (map (answer_of complete_chat) models) = models"
    by (simp add: answer_of_def o_def)
  moreover have "\<forall>a \<in> set (map (answer_of complete_chat) models).
                   (\<exists>text. outcome a = Inr text) \<or> (\<exists>reason. outcome a = Inl reason)"
    by (metis sum.exhaust)
  ultimately show ?thesis by simp
qed

theorem response_collector_order_witness:
  "set [2, 0, 1] = {..<length [''m1'', ''m2'', ''m3'']}
   \<and> response_collector demo_chat [''m1'', ''m2'', ''m3''] [2, 0, 1]
       = Some [\<lparr>model = ''m1'', outcome = Inr ''answer of m1'', latency = 7\<rparr>,
               \<lparr>model = ''m2'', outcome = Inl ''timeout'', latency = 120\<rparr>,
               \<lparr>model = ''m3'', outcome = Inr ''answer of m3'', latency = 7\<rparr>]
   \<and> response_collector demo_chat [''m1'', ''m2'', ''m3''] [0, 1, 2]
       = response_collector demo_chat [''m1'', ''m2'', ''m3''] [2, 0, 1]"
proof -
  have h: "set [2, 0, 1] = {..<length [''m1'', ''m2'', ''m3'']}" by auto
  have h': "set [0, 1, 2] = {..<length [''m1'', ''m2'', ''m3'']}" by auto
  from response_collector_order [OF h, of demo_chat] response_collector_order [OF h', of demo_chat] h
  show ?thesis by (simp add: answer_of_def demo_chat_def)
qed

section \<open>Running handler code step by step\<close>

lemma bindP_returnP [simp]: "bindP (returnP a) f w = f a w"
  by (simp add: bindP_def returnP_def)

lemma bindP_raiseP [simp]: "bindP (raiseP e) f w = (Inl e, w)"
  by (simp add: bindP_def raiseP_def)

lemma bindP_assoc [simp]: "bindP (bindP m f) g w = bindP m (\<lambda>a. bindP (f a) g) w"
  by (simp add: bindP_def split: prod.splits sum.splits)

lemma bindP_if [simp]:
  "bindP (if b then m1 else m2) f w = (if b then bindP m1 f w else bindP m2 f w)"
  by simp

lemma bindP_yield [simp]: "bindP (yield ev) f w = f () (w\<lparr>sent := sent w @ [ev]\<rparr>)"
  by (simp add: bindP_def yield_def)

lemma bindP_log_call [simp]: "bindP (log_call c) f w = f () (w\<lparr>calls := calls w @ [c]\<rparr>)"
  by (simp add: bindP_def log_call_def)

lemma bindP_collaborator [simp]:
  "bindP (collaborator c out) f w =
     (case out of Inl e \<Rightarrow> (Inl e, w\<lparr>calls := calls w @ [c]\<rparr>)
                | Inr a \<Rightarrow> f a (w\<lparr>calls := calls w @ [c]\<rparr>))"
  by (simp add: bindP_def collaborator_def split: sum.splits)

lemma bindP_storage_write [simp]:
  "bindP (storage_write c g) f w =
     (case snd (g (store w)) of
        None \<Rightarrow> f () (w\<lparr>store := fst (g (store w)), calls := calls w @ [c]\<rparr>)
      | Some e \<Rightarrow> (Inl e, w\<lparr>store := fst (g (store w)), calls := calls w @ [c]\<rparr>))"
  by (simp add: bindP_def storage_write_def split: prod.splits option.splits)

lemma storage_write_run:
  "storage_write c g w =
     ((case snd (g (store w)) of None \<Rightarrow> Inr () | Some e \<Rightarrow> Inl e),
      w\<lparr>store := fst (g (store w)), calls := calls w @ [c]\<rparr>)"
  by (simp add: storage_write_def split: prod.splits option.splits)

lemma bindP_send_event [simp]:
  "bindP (send_event env ev) f w =
     (case websocket_send_json env (sent w) ev of
        None \<Rightarrow> f () (w\<lparr>sent := sent w @ [ev]\<rparr>)
      | Some e \<Rightarrow> (Inl e, w))"
  by (simp add: bindP_def send_event_def split: option.splits)

lemmas run_simps = yield_def log_call_def collaborator_def storage_write_run returnP_def raiseP_def

lemmas action_defs = add_user_message_def update_conversation_title_def add_assistant_message_def
  create_title_task_def await_title_task_def generate_conversation_title_def
  stage1_collect_responses_def stage2_collect_rankings_def calculate_aggregate_rankings_def
  stage3_synthesize_final_def run_full_council_def

lemma bindP_set_client [simp]: "bindP (set_client c) f s = f () (s\<lparr>realtime_client := c\<rparr>)"
  by (simp add: bindP_def set_client_def)

lemma bindP_with_client [simp]:
  "bindP (with_client f) g s =
     (case realtime_client s of
        None \<Rightarrow> (Inl (AttributeError ''NoneType''), s)
      | Some c \<Rightarrow> bindP (f c) g s)"
  by (simp add: bindP_def with_client_def split: option.splits)

lemma bindP_realtime_ws_send [simp]:
  "bindP (realtime_ws_send env m) f w =
     (case realtime_send env m of
        None \<Rightarrow> f () (w\<lparr>calls := calls w @ [RealtimeSend m]\<rparr>)
      | Some e \<Rightarrow> (Inl e, w\<lparr>calls := calls w @ [RealtimeSend m]\<rparr>))"
  by (simp add: realtime_ws_send_def option_outcome_def split: option.splits)

lemma realtime_ws_send_run:
  "realtime_ws_send env m w =
     (option_outcome (realtime_send env m), w\<lparr>calls := calls w @ [RealtimeSend m]\<rparr>)"
  by (simp add: realtime_ws_send_def collaborator_def)

lemma strip_empty_iff: "strip t = [] \<longleftrightarrow> whitespace_only t"
proof -
  have "strip t = [] \<longleftrightarrow> dropWhile is_space (rev (dropWhile is_space t)) = []"
    by (simp add: strip_def)
  also have "\<dots> \<longleftrightarrow> (\<forall>x \<in> set (dropWhile is_space t). is_space x)"
    by (simp add: dropWhile_eq_Nil_conv)
  also have "\<dots> \<longleftrightarrow> dropWhile is_space t = []"
  proof
    assume a: "\<forall>x \<in> set (dropWhile is_space t). is_space x"
    show "dropWhile is_space t = []"
    proof (rule ccontr)
      assume "dropWhile is_space t \<noteq> []"
      then have "\<not> is_space (hd (dropWhile is_space t))" and "hd (dropWhile is_space t) \<in> set (dropWhile is_space t)"
        by (simp_all add: hd_dropWhile)
      with a show False by blast
    qed
  qed (auto dest: set_dropWhileD)
  also have "\<dots> \<longleftrightarrow> whitespace_only t"
    by (simp add: dropWhile_eq_Nil_conv whitespace_only_def list_all_iff)
  finally show ?thesis .
qed

lemmas voice_defs = handle_message_def stop_recording_def start_recording_def
  client_commit_audio_def client_receive_messages_def client_close_def client_send_audio_def
  client_connect_def

section \<open>Collaborator calls in order\<close>

lemma bindP_lift [simp]:
  "bindP (\<lambda>w. (r, w)) f w = (case r of Inl e \<Rightarrow> (Inl e, w) | Inr a \<Rightarrow> f a w)"
  by (simp add: bindP_def split: sum.splits)

lemma calls_send_event [simp]: "calls (snd (send_event env ev w)) = calls w"
  by (simp add: send_event_def split: option.splits)

lemma keeps_callsD: "keeps_calls m \<Longrightarrow> calls (snd (m w)) = calls w"
  by (simp add: keeps_calls_def)

lemma keeps_calls_send_event [simp]: "keeps_calls (send_event env ev)"
  by (simp add: keeps_calls_def)

lemma keeps_calls_returnP [simp]: "keeps_calls (returnP a)"
  by (simp add: keeps_calls_def returnP_def)

lemma keeps_calls_raiseP [simp]: "keeps_calls (raiseP e)"
  by (simp add: keeps_calls_def raiseP_def)

lemma keeps_calls_bindP [simp]:
  "keeps_calls m \<Longrightarrow> (\<And>a. keeps_calls (f a)) \<Longrightarrow> keeps_calls (bindP m f)"
  by (auto simp: keeps_calls_def bindP_def split: prod.splits sum.splits)
     (metis snd_conv)+

lemma keeps_calls_try_except [simp]:
  "keeps_calls m \<Longrightarrow> (\<And>e. keeps_calls (h e)) \<Longrightarrow> keeps_calls (try_except m h)"
  by (auto simp: keeps_calls_def try_except_def split: prod.splits sum.splits)
     (metis snd_conv)+

lemma send_audio_chunks_Cons:
  "send_audio_chunks env (chunk # chunks)
     = bindP (send_event env (AudioResponse (b64encode env chunk)))
         (\<lambda>_. send_audio_chunks env chunks)"
  by (rule ext) (simp add: bindP_def split: prod.splits sum.splits)

lemma keeps_calls_send_audio_chunks [simp]: "keeps_calls (send_audio_chunks env chunks)"
proof (induction chunks)
  case Nil
  show ?case by (simp add: keeps_calls_def)
next
  case (Cons chunk chunks)
  show ?case
    unfolding send_audio_chunks_Cons
    by (rule keeps_calls_bindP) (simp_all add: Cons)
qed

lemma keeps_calls_case_option [simp]:
  "keeps_calls m \<Longrightarrow> (\<And>e. keeps_calls (f e)) \<Longrightarrow> keeps_calls (case x of None \<Rightarrow> m | Some e \<Rightarrow> f e)"
  by (cases x) simp_all

lemma stream_audio_response_calls:
  "calls (snd (stream_audio_response env text w)) =
     calls w @ (if falsy text \<or> websocket_send_json env (sent w) AudioStart \<noteq> None then []
                else [TextToSpeech text])"
proof (cases "falsy text")
  case True
  then show ?thesis
    by (simp add: stream_audio_response_def)
next
  case False
  show ?thesis
  proof (cases "websocket_send_json env (sent w) AudioStart")
    case (Some e)
    with False show ?thesis
      by (simp add: stream_audio_response_def try_except_def)
  next
    case None
    have "stream_audio_response env text w
            = try_except
                (bindP (send_audio_chunks env (fst (text_to_speech_stream env text))) (\<lambda>_.
                 bindP (case snd (text_to_speech_stream env text) of
                          None \<Rightarrow> returnP ()
                        | Some e \<Rightarrow> raiseP e) (\<lambda>_.
                 send_event env AudioComplete)))
                (\<lambda>e. send_event env (Error (''TTS error: '' @ exn_str e)))
                (w\<lparr>sent := sent w @ [AudioStart], calls := calls w @ [TextToSpeech text]\<rparr>)"
      using False None by (simp add: stream_audio_response_def try_except_def)
    moreover have "calls (snd (try_except
                (bindP (send_audio_chunks env (fst (text_to_speech_stream env text))) (\<lambda>_.
                 bindP (case snd (text_to_speech_stream env text) of
                          None \<Rightarrow> returnP ()
                        | Some e \<Rightarrow> raiseP e) (\<lambda>_.
                 send_event env AudioComplete)))
                (\<lambda>e. send_event env (Error (''TTS error: '' @ exn_str e)))
                (w\<lparr>sent := sent w @ [AudioStart], calls := calls w @ [TextToSpeech text]\<rparr>)))
            = calls (w\<lparr>sent := sent w @ [AudioStart], calls := calls w @ [TextToSpeech text]\<rparr>)"
      by (rule keeps_callsD) simp
    ultimately show ?thesis using False None by simp
  qed
qed


lemma makesI:
  assumes "\<And>w. \<exists>cs. calls (snd (m w)) = calls w @ cs
            \<and> (case fst (m w) of
                  Inr _ \<Rightarrow> \<exists>t. map kind_of cs = ks @ t \<and> prefix t opt
                | Inl _ \<Rightarrow> prefix (map kind_of cs) (ks @ opt))"
  shows "makes ks opt m"
  using assms by (simp add: makes_def)

lemma makes_nothing:
  assumes "keeps_calls m"
  shows "makes [] [] m"
proof (rule makesI)
  fix w
  from assms have "calls (snd (m w)) = calls w @ []" by (simp add: keeps_calls_def)
  then show "\<exists>cs. calls (snd (m w)) = calls w @ cs
            \<and> (case fst (m w) of
                  Inr _ \<Rightarrow> \<exists>t. map kind_of cs = [] @ t \<and> prefix t []
                | Inl _ \<Rightarrow> prefix (map kind_of cs) ([] @ []))"
    by (intro exI [of _ "[]"]) (simp split: sum.splits)
qed

lemma keeps_calls_yield: "keeps_calls (yield ev)"
  by (simp add: keeps_calls_def yield_def)

lemma makes_send_event: "makes [] [] (send_event env ev)"
  by (rule makes_nothing) simp

lemma makes_returnP: "makes [] [] (returnP a)"
  by (rule makes_nothing) simp

lemma makes_lift: "makes [] [] (\<lambda>w. (r, w))"
  by (rule makes_nothing) (simp add: keeps_calls_def)

lemma makes_log_call: "makes [kind_of c] [] (log_call c)"
  by (rule makesI) (simp add: log_call_def)

lemma makes_collaborator: "makes [kind_of c] [] (collaborator c out)"
  by (rule makesI) (simp add: collaborator_def split: sum.splits)

lemma makes_storage_write: "makes [kind_of c] [] (storage_write c g)"
  by (rule makesI) (simp add: storage_write_run split: option.splits)

lemma makes_stream_audio_response: "makes [] [Speech] (stream_audio_response env text)"
  by (rule makesI) (simp add: stream_audio_response_calls split: sum.splits)

lemma makes_if:
  "makes ks1 opt m1 \<Longrightarrow> makes ks2 opt m2 \<Longrightarrow>
     makes (if b then ks1 else ks2) opt (if b then m1 else m2)"
  by simp

lemma makes_case_prod:
  "(\<And>a b. makes ks opt (f a b)) \<Longrightarrow> makes ks opt (case p of (a, b) \<Rightarrow> f a b)"
  by (cases p) simp

lemma makesD:
  assumes "makes ks opt m" and "m w = (r, w')"
  obtains cs where "calls w' = calls w @ cs"
    and "case r of Inr _ \<Rightarrow> \<exists>t. map kind_of cs = ks @ t \<and> prefix t opt
                 | Inl _ \<Rightarrow> prefix (map kind_of cs) (ks @ opt)"
proof -
  from assms(1) have "\<exists>cs. calls (snd (m w)) = calls w @ cs
            \<and> (case fst (m w) of
                  Inr _ \<Rightarrow> \<exists>t. map kind_of cs = ks @ t \<and> prefix t opt
                | Inl _ \<Rightarrow> prefix (map kind_of cs) (ks @ opt))"
    unfolding makes_def by (rule spec)
  with assms(2) that show thesis by auto
qed

lemma makes_bindP:
  assumes m: "makes ks1 [] m" and f: "\<And>a. makes ks2 opt (f a)"
  shows "makes (ks1 @ ks2) opt (bindP m f)"
proof (rule makesI)
  fix w
  obtain r w1 where mw: "m w = (r, w1)" by (cases "m w")
  from makesD [OF m mw] obtain cs1 where c1: "calls w1 = calls w @ cs1"
    and r1: "case r of Inr _ \<Rightarrow> \<exists>t. map kind_of cs1 = ks1 @ t \<and> prefix t []
                     | Inl _ \<Rightarrow> prefix (map kind_of cs1) (ks1 @ [])"
    by blast
  show "\<exists>cs. calls (snd (bindP m f w)) = calls w @ cs
            \<and> (case fst (bindP m f w) of
                  Inr _ \<Rightarrow> \<exists>t. map kind_of cs = (ks1 @ ks2) @ t \<and> prefix t opt
                | Inl _ \<Rightarrow> prefix (map kind_of cs) ((ks1 @ ks2) @ opt))"
  proof (cases r)
    case (Inl e)
    with r1 have "prefix (map kind_of cs1) ks1" by simp
    then have "prefix (map kind_of cs1) ((ks1 @ ks2) @ opt)"
      by (simp add: prefix_def) (metis append.assoc)
    with Inl mw c1 show ?thesis
      by (intro exI [of _ cs1]) (simp add: bindP_def)
  next
    case (Inr a)
    obtain r2 w2 where fw: "f a w1 = (r2, w2)" by (cases "f a w1")
    from makesD [OF f fw] obtain cs2 where c2: "calls w2 = calls w1 @ cs2"
      and r2: "case r2 of
                 Inr _ \<Rightarrow> \<exists>t. map kind_of cs2 = ks2 @ t \<and> prefix t opt
               | Inl _ \<Rightarrow> prefix (map kind_of cs2) (ks2 @ opt)"
      by blast
    from Inr r1 have k1: "map kind_of cs1 = ks1" by simp
    from Inr mw fw have b: "bindP m f w = (r2, w2)" by (simp add: bindP_def)
    show ?thesis
      using c1 c2 r2 k1
      by (intro exI [of _ "cs1 @ cs2"]) (auto simp: b split: sum.splits)
  qed
qed

lemma makes_calls:
  "makes [StoreUserMessage] [] (storage_write (AddUserMessage c q) g)"
  "makes [StoreTitle] [] (storage_write (UpdateConversationTitle c t) g)"
  "makes [StoreAssistantMessage] [] (storage_write (AddAssistantMessage c s1 s2 s3) g)"
  "makes [StartTitle] [] (log_call (TitleStart q))"
  "makes [AwaitTitle] [] (collaborator TitleAwait title_outcome)"
  "makes [Stage1] [] (collaborator (Stage1CollectResponses q) out1)"
  "makes [Stage2] [] (collaborator (Stage2CollectRankings q s1) out2)"
  "makes [Aggregate] [] (collaborator (CalculateAggregateRankings s2 l) out3)"
  "makes [Stage3] [] (collaborator (Stage3SynthesizeFinal q s1 s2) out4)"
  "makes [FullCouncil] [] (collaborator (RunFullCouncil q) out5)"
  using makes_storage_write [of "AddUserMessage c q" g]
        makes_storage_write [of "UpdateConversationTitle c t" g]
        makes_storage_write [of "AddAssistantMessage c s1 s2 s3" g]
        makes_log_call [of "TitleStart q"]
        makes_collaborator [of TitleAwait title_outcome]
        makes_collaborator [of "Stage1CollectResponses q" out1]
        makes_collaborator [of "Stage2CollectRankings q s1" out2]
        makes_collaborator [of "CalculateAggregateRankings s2 l" out3]
        makes_collaborator [of "Stage3SynthesizeFinal q s1 s2" out4]
        makes_collaborator [of "RunFullCouncil q" out5]
  by simp_all

lemmas makes_rules = makes_bindP makes_if makes_case_prod makes_send_event makes_returnP
  makes_lift makes_calls makes_stream_audio_response

lemma makes_weaken: "makes ks' opt' m \<Longrightarrow> ks' = ks \<Longrightarrow> opt' = opt \<Longrightarrow> makes ks opt m"
  by simp

lemma council_process_makes:
  "makes (butlast (voice_order first)) [Speech] (council_process env cid q first)"
  unfolding council_process_def action_defs
  by (rule makes_weaken, (rule makes_rules)+) (simp_all add: voice_order_def)

lemma council_turn_makes:
  "makes (stream_order first) [] (council_turn env cid q first)"
  unfolding council_turn_def action_defs
  by (rule makes_weaken, (rule makes_rules makes_nothing keeps_calls_yield)+)
     (simp_all add: stream_order_def)

lemma send_message_body_makes:
  "makes (atomic_order first) [] (send_message_body env cid q first)"
  unfolding send_message_body_def action_defs
  by (rule makes_weaken, (rule makes_rules)+) (simp_all add: atomic_order_def)

lemma makes_new_calls:
  assumes "makes ks opt m"
  shows "prefix (new_calls w (snd (m w))) (ks @ opt)
         \<and> (case fst (m w) of
               Inr _ \<Rightarrow> prefix ks (new_calls w (snd (m w)))
             | Inl _ \<Rightarrow> True)"
proof -
  obtain r w' where mw: "m w = (r, w')" by (cases "m w")
  from makesD [OF assms mw] obtain cs where c: "calls w' = calls w @ cs"
    and r: "case r of Inr _ \<Rightarrow> \<exists>t. map kind_of cs = ks @ t \<and> prefix t opt
                    | Inl _ \<Rightarrow> prefix (map kind_of cs) (ks @ opt)"
    by blast
  from c have n: "new_calls w w' = map kind_of cs" by (simp add: new_calls_def)
  show ?thesis
    using r by (cases r) (auto simp: mw n)
qed

lemma makes_exact:
  assumes "makes ks [] m"
  shows "prefix (new_calls w (snd (m w))) ks
         \<and> (case fst (m w) of Inr _ \<Rightarrow> new_calls w (snd (m w)) = ks | Inl _ \<Rightarrow> True)"
  using makes_new_calls [OF assms, of w]
  by (auto split: sum.splits simp: prefix_order.antisym)


lemma run_council_process_found:
  "storage_get_conversation env (store w) cid = Some conversation \<Longrightarrow>
     run_council_process env cid q w
       = council_process env cid q (conv_messages conversation = []) w"
  by (simp add: run_council_process_def)

lemma event_generator_calls:
  "calls (snd (event_generator env cid q first w)) = calls (snd (council_turn env cid q first w))"
  by (simp add: event_generator_def try_except_def yield_def split: prod.splits sum.splits)

lemmas body_defs = council_turn_def council_process_def send_message_body_def

section \<open>Facts about the example data\<close>

lemma demo_verify [simp]:
  "verify_token demo_jwt_decode ''garbage'' = Inr None"
  "verify_token demo_jwt_decode ''tok-u9'' = Inr (Some [(''sub'', JStr ''u9'')])"
  "verify_token demo_jwt_decode ''tok-u1''
     = Inr (Some [(''sub'', JStr ''u1''), (''email'', JStr ''alice@example.com'')])"
  by (simp_all add: verify_token_def demo_jwt_decode_def)

lemma demo_users [simp]:
  "get_user_by_id demo_db (Some (JStr ''u9'')) = None"
  "get_user_by_id demo_db (Some (JStr ''u1'')) = Some (public_columns alice)"
  by (simp_all add: get_user_by_id_def demo_db_def alice_def bob_def)

lemma demo_env_fields [simp]:
  "jwt_library_decode demo_env = demo_jwt_decode"
  "user_table demo_env = demo_db"
  "OPENAI_API_KEY demo_env = Some ''sk-demo''"
  "storage_get_conversation demo_env = (\<lambda>st conversation_id. map_of st conversation_id)"
  by (simp_all add: demo_env_def)

lemma demo_store_lookup [simp]:
  "map_of (store demo_world) ''c1'' = Some \<lparr>conv_user_id = JStr ''u1'', conv_messages = []\<rparr>"
  "map_of (store demo_world) ''c2''
     = Some \<lparr>conv_user_id = JStr ''u2'', conv_messages = [JStr ''earlier turn'']\<rparr>"
  "map_of (store demo_world) ''c9'' = None"
  by (simp_all add: demo_world_def demo_store0_def)

lemma demo_alice_id [simp]: "subscript (public_columns alice) ''id'' = Inr (JStr ''u1'')"
  by (simp add: subscript_def public_columns_def alice_def)

lemma demo_storage_writes_return [simp]: "storage_writes_return demo_env"
  by (simp add: storage_writes_return_def demo_env_def)

lemma demo_council [simp]:
  "council_generate_conversation_title demo_env q = Inr ''Title''"
  "council_stage1_collect_responses demo_env q = Inr (JStr ''answers'')"
  "council_stage2_collect_rankings demo_env q s1 = Inr (JStr ''rankings'', JStr ''labels'')"
  "council_calculate_aggregate_rankings demo_env s2 l = Inr (JStr ''aggregate'')"
  "council_stage3_synthesize_final demo_env q s1 s2 = Inr (JObj [(''response'', JStr ''final'')])"
  "council_run_full_council demo_env q
     = Inr (JStr ''answers'', JStr ''rankings'', JObj [(''response'', JStr ''final'')], JStr ''metadata'')"
  by (simp_all add: demo_env_def)

lemma demo_world_fields [simp]:
  "sent demo_world = []" "calls demo_world = []" "store demo_world = demo_store0"
  by (simp_all add: demo_world_def)

lemma demo_storage [simp]:
  "storage_get_conversation demo_env st c = map_of st c"
  "storage_add_user_message demo_env st c content = (demo_append st c (JStr content), None)"
  "storage_update_conversation_title demo_env st c title = (st, None)"
  "storage_add_assistant_message demo_env st c s1 s2 s3 = (demo_append st c (JArr [s1, s2, s3]), None)"
  by (simp_all add: demo_env_def)

lemma failing_env_fields [simp]:
  "storage_get_conversation failing_env st c = map_of st c"
  "storage_add_user_message failing_env st c content = (demo_append st c (JStr content), None)"
  "council_stage1_collect_responses failing_env q = Inl (Exception ''provider down'')"
  by (simp_all add: failing_env_def demo_env_def)

lemma demo_store0_lookup [simp]:
  "map_of demo_store0 ''c1'' = Some \<lparr>conv_user_id = JStr ''u1'', conv_messages = []\<rparr>"
  "map_of demo_store0 ''c2''
     = Some \<lparr>conv_user_id = JStr ''u2'', conv_messages = [JStr ''earlier turn'']\<rparr>"
  "map_of demo_store0 ''c9'' = None"
  by (simp_all add: demo_store0_def)

lemma demo_realtime [simp]:
  "realtime_send demo_env m = None"
  "realtime_close demo_env = None"
  "realtime_connect demo_env = None"
  "realtime_inbox demo_env = [OtherEvent, TranscriptionCompleted [0x20, 0xA0, 0x2003]]"
  "realtime_inbox_end demo_env = StreamEnds"
  "websocket_send_json demo_env evs ev = None"
  "b64decode demo_env ''aGk='' = Inr ''hi''"
  by (simp_all add: demo_env_def)

lemma recording_session_fields [simp]:
  "realtime_client recording_session = Some \<lparr>rt_ws = True, rt_connected = True\<rparr>"
  "sent recording_session = [RecordingStarted]"
  "calls recording_session = [RealtimeConnect, RealtimeSend SessionUpdate]"
  "audio_chunks recording_session = [''hi'']"
  "store recording_session = demo_store0"
  by (simp_all add: recording_session_def)

lemma idle_session_fields [simp]:
  "realtime_client idle_session = None"
  "sent idle_session = []"
  "calls idle_session = []"
  "audio_chunks idle_session = []"
  "is_recording idle_session = False"
  by (simp_all add: idle_session_def new_session_def)

lemma demo_tts [simp]:
  "text_to_speech_stream demo_env t = ([''mp3''], None)"
  "b64encode demo_env ''mp3'' = ''bXAz''"
  by (simp_all add: demo_env_def)

section \<open>Setup failures of the voice endpoint\<close>

text \<open>
  C5 as the code has it.  Each setup failure (no token, a token that \<^verbatim>\<open>verify_token\<close>
  rejects, a user that does not exist, no OpenAI API key, a conversation that does not
  exist, a conversation of another user) closes the connection before \<^verbatim>\<open>accept\<close>: whatever
  the client would send, nothing is sent, called or stored.  The six reasons differ; the
  close code is 4001 for the first four causes, 4004 and 4003 for the last two.
\<close>

theorem voice_setup_failures:
  "(token = None \<or> token = Some [] \<longrightarrow>
      voice_chat_endpoint env cid token ms w = (Closed 4001 ''Authentication required'', w))
   \<and> (token = Some tok \<and> tok \<noteq> [] \<longrightarrow>
        (verify_token (jwt_library_decode env) tok = Inr None \<longrightarrow>
           voice_chat_endpoint env cid token ms w = (Closed 4001 ''Invalid token'', w))
      \<and> (verify_token (jwt_library_decode env) tok = Inr (Some payload) \<longrightarrow>
           (get_user_by_id (user_table env) (map_of payload ''sub'') = None \<longrightarrow>
              voice_chat_endpoint env cid token ms w = (Closed 4001 ''User not found'', w))
         \<and> (get_user_by_id (user_table env) (map_of payload ''sub'') = Some current_user \<longrightarrow>
              (OPENAI_API_KEY env = None \<or> OPENAI_API_KEY env = Some [] \<longrightarrow>
                 voice_chat_endpoint env cid token ms w
                   = (Closed 4001 ''OpenAI API key not configured'', w))
            \<and> (OPENAI_API_KEY env = Some key \<and> key \<noteq> [] \<longrightarrow>
                 (storage_get_conversation env (store w) cid = None \<longrightarrow>
                    voice_chat_endpoint env cid token ms w
                      = (Closed 4004 ''Conversation not found'', w))
               \<and> (storage_get_conversation env (store w) cid = Some conversation
                     \<and> subscript current_user ''id'' = Inr uid
                     \<and> conv_user_id conversation \<noteq> uid \<longrightarrow>
                    voice_chat_endpoint env cid token ms w = (Closed 4003 ''Access denied'', w))))))
   \<and> distinct [''Authentication required'', ''Invalid token'', ''User not found'',
                ''OpenAI API key not configured'', ''Conversation not found'', ''Access denied'']"
  by (auto simp: voice_chat_endpoint_def)

theorem voice_setup_failures_witness:
  "voice_chat_endpoint demo_env ''c1'' None [StartRecording] demo_world
     = (Closed 4001 ''Authentication required'', demo_world)
   \<and> voice_chat_endpoint demo_env ''c1'' (Some ''garbage'') [StartRecording] demo_world
     = (Closed 4001 ''Invalid token'', demo_world)
   \<and> voice_chat_endpoint demo_env ''c1'' (Some ''tok-u9'') [StartRecording] demo_world
     = (Closed 4001 ''User not found'', demo_world)
   \<and> voice_chat_endpoint (demo_env\<lparr>OPENAI_API_KEY := None\<rparr>) ''c1'' (Some ''tok-u1'') [StartRecording]
        demo_world
     = (Closed 4001 ''OpenAI API key not configured'', demo_world)
   \<and> voice_chat_endpoint demo_env ''c9'' (Some ''tok-u1'') [StartRecording] demo_world
     = (Closed 4004 ''Conversation not found'', demo_world)
   \<and> voice_chat_endpoint demo_env ''c2'' (Some ''tok-u1'') [StartRecording] demo_world
     = (Closed 4003 ''Access denied'', demo_world)"
proof -
  have c2: "map_of (store demo_world) ''c2''
              = Some \<lparr>conv_user_id = JStr ''u2'', conv_messages = [JStr ''earlier turn'']\<rparr>"
    and c9: "map_of (store demo_world) ''c9'' = None"
    by (simp_all add: demo_world_def demo_store0_def)
  have sub: "subscript (public_columns alice) ''id'' = Inr (JStr ''u1'')"
    by (simp add: subscript_def public_columns_def alice_def)
  note a = voice_setup_failures [where token = None and env = demo_env and cid = "''c1''"
             and ms = "[StartRecording]" and w = demo_world]
  note b = voice_setup_failures [where token = "Some ''garbage''" and tok = "''garbage''"
             and env = demo_env and cid = "''c1''" and ms = "[StartRecording]" and w = demo_world]
  note c = voice_setup_failures [where token = "Some ''tok-u9''" and tok = "''tok-u9''"
             and env = demo_env and cid = "''c1''" and ms = "[StartRecording]" and w = demo_world
             and payload = "[(''sub'', JStr ''u9'')]"]
  note d = voice_setup_failures [where token = "Some ''tok-u1''" and tok = "''tok-u1''"
             and env = "demo_env\<lparr>OPENAI_API_KEY := None\<rparr>" and cid = "''c1''"
             and ms = "[StartRecording]" and w = demo_world
             and payload = "[(''sub'', JStr ''u1''), (''email'', JStr ''alice@example.com'')]"
             and current_user = "public_columns alice"]
  note e = voice_setup_failures [where token = "Some ''tok-u1''" and tok = "''tok-u1''"
             and env = demo_env and cid = "''c9''" and ms = "[StartRecording]" and w = demo_world
             and payload = "[(''sub'', JStr ''u1''), (''email'', JStr ''alice@example.com'')]"
             and current_user = "public_columns alice" and key = "''sk-demo''"]
  note f = voice_setup_failures [where token = "Some ''tok-u1''" and tok = "''tok-u1''"
             and env = demo_env and cid = "''c2''" and ms = "[StartRecording]" and w = demo_world
             and payload = "[(''sub'', JStr ''u1''), (''email'', JStr ''alice@example.com'')]"
             and current_user = "public_columns alice" and key = "''sk-demo''"
             and conversation = "\<lparr>conv_user_id = JStr ''u2'', conv_messages = [JStr ''earlier turn'']\<rparr>"
             and uid = "JStr ''u1''"]
  from a have 1: "voice_chat_endpoint demo_env ''c1'' None [StartRecording] demo_world
     = (Closed 4001 ''Authentication required'', demo_world)" by simp
  from b have 2: "voice_chat_endpoint demo_env ''c1'' (Some ''garbage'') [StartRecording] demo_world
     = (Closed 4001 ''Invalid token'', demo_world)" by simp
  from c have 3: "voice_chat_endpoint demo_env ''c1'' (Some ''tok-u9'') [StartRecording] demo_world
     = (Closed 4001 ''User not found'', demo_world)" by simp
  from d have 4: "voice_chat_endpoint (demo_env\<lparr>OPENAI_API_KEY := None\<rparr>) ''c1'' (Some ''tok-u1'')
        [StartRecording] demo_world
     = (Closed 4001 ''OpenAI API key not configured'', demo_world)" by simp
  from e c9 have 5: "voice_chat_endpoint demo_env ''c9'' (Some ''tok-u1'') [StartRecording] demo_world
     = (Closed 4004 ''Conversation not found'', demo_world)" by simp
  from f c2 sub have 6: "voice_chat_endpoint demo_env ''c2'' (Some ''tok-u1'') [StartRecording] demo_world
     = (Closed 4003 ''Access denied'', demo_world)" by simp
  from 1 2 3 4 5 6 show ?thesis by simp
qed

text \<open>
  A missing token and an invalid token are closed with the same code, 4001: the close code
  does not tell the causes apart.
\<close>

theorem close_codes_shared:
  "voice_chat_endpoint demo_env ''c1'' None [] demo_world
     = (Closed 4001 ''Authentication required'', demo_world)
   \<and> voice_chat_endpoint demo_env ''c1'' (Some ''garbage'') [] demo_world
     = (Closed 4001 ''Invalid token'', demo_world)
   \<and> close_code (fst (voice_chat_endpoint demo_env ''c1'' None [] demo_world))
     = close_code (fst (voice_chat_endpoint demo_env ''c1'' (Some ''garbage'') [] demo_world))"
  by (simp add: voice_chat_endpoint_def)

section \<open>The atomic endpoint\<close>

text \<open>
  C4.  \<^verbatim>\<open>send_message\<close> answers 404 when the conversation does not exist and 403 when
  its \<^verbatim>\<open>user_id\<close> differs from the caller's id; in both cases nothing is stored, called
  or sent (the state is returned unchanged).  Otherwise, when the collaborators it awaits
  return (the storage writes, the title generation of a first message, and
  \<^verbatim>\<open>run_full_council\<close>), it stores the user message, runs the whole council, stores the
  assistant message and returns the three stage results and the metadata in one response.
\<close>

theorem send_message_outcomes:
  "(storage_get_conversation env (store w) cid = None \<longrightarrow>
      send_message env cid content current_user w = (HTTPException 404 ''Conversation not found'', w))
   \<and> (storage_get_conversation env (store w) cid = Some conversation
        \<and> subscript current_user ''id'' = Inr uid \<longrightarrow>
        (conv_user_id conversation \<noteq> uid \<longrightarrow>
           send_message env cid content current_user w = (HTTPException 403 ''Access denied'', w))
      \<and> (conv_user_id conversation = uid
           \<and> storage_writes_return env
           \<and> (conv_messages conversation = [] \<longrightarrow>
                 council_generate_conversation_title env content = Inr title)
           \<and> council_run_full_council env content = Inr (s1, s2, s3, meta) \<longrightarrow>
           fst (send_message env cid content current_user w)
             = Returned \<lparr>resp_stage1 = s1, resp_stage2 = s2, resp_stage3 = s3, resp_metadata = meta\<rparr>
         \<and> calls (snd (send_message env cid content current_user w))
             = calls w @ [AddUserMessage cid content]
               @ (if conv_messages conversation = []
                  then [TitleStart content, TitleAwait, UpdateConversationTitle cid title]
                  else [])
               @ [RunFullCouncil content, AddAssistantMessage cid s1 s2 s3]
         \<and> sent (snd (send_message env cid content current_user w)) = sent w))"
  by (auto simp: send_message_def send_message_body_def action_defs run_simps storage_writes_return_def)

theorem send_message_outcomes_witness:
  "send_message demo_env ''c9'' ''hello'' (public_columns alice) demo_world
     = (HTTPException 404 ''Conversation not found'', demo_world)
   \<and> send_message demo_env ''c2'' ''hello'' (public_columns alice) demo_world
     = (HTTPException 403 ''Access denied'', demo_world)
   \<and> fst (send_message demo_env ''c1'' ''hello'' (public_columns alice) demo_world)
     = Returned \<lparr>resp_stage1 = JStr ''answers'', resp_stage2 = JStr ''rankings'',
                 resp_stage3 = JObj [(''response'', JStr ''final'')],
                 resp_metadata = JStr ''metadata''\<rparr>
   \<and> calls (snd (send_message demo_env ''c1'' ''hello'' (public_columns alice) demo_world))
     = [AddUserMessage ''c1'' ''hello'', TitleStart ''hello'', TitleAwait,
        UpdateConversationTitle ''c1'' ''Title'', RunFullCouncil ''hello'',
        AddAssistantMessage ''c1'' (JStr ''answers'') (JStr ''rankings'')
          (JObj [(''response'', JStr ''final'')])]"
proof -
  note a = send_message_outcomes [where env = demo_env and w = demo_world and cid = "''c9''"
             and content = "''hello''" and current_user = "public_columns alice"]
  note b = send_message_outcomes [where env = demo_env and w = demo_world and cid = "''c2''"
             and content = "''hello''" and current_user = "public_columns alice"
             and conversation = "\<lparr>conv_user_id = JStr ''u2'', conv_messages = [JStr ''earlier turn'']\<rparr>"
             and uid = "JStr ''u1''"]
  note c = send_message_outcomes [where env = demo_env and w = demo_world and cid = "''c1''"
             and content = "''hello''" and current_user = "public_columns alice"
             and conversation = "\<lparr>conv_user_id = JStr ''u1'', conv_messages = []\<rparr>"
             and uid = "JStr ''u1''" and title = "''Title''" and ?s1.0 = "JStr ''answers''"
             and ?s2.0 = "JStr ''rankings''" and ?s3.0 = "JObj [(''response'', JStr ''final'')]"
             and meta = "JStr ''metadata''"]
  have cw: "calls demo_world = []" by (simp add: demo_world_def)
  from a have 1: "send_message demo_env ''c9'' ''hello'' (public_columns alice) demo_world
     = (HTTPException 404 ''Conversation not found'', demo_world)" by simp
  from b have 2: "send_message demo_env ''c2'' ''hello'' (public_columns alice) demo_world
     = (HTTPException 403 ''Access denied'', demo_world)" by simp
  from c cw have 3: "fst (send_message demo_env ''c1'' ''hello'' (public_columns alice) demo_world)
     = Returned \<lparr>resp_stage1 = JStr ''answers'', resp_stage2 = JStr ''rankings'',
                 resp_stage3 = JObj [(''response'', JStr ''final'')],
                 resp_metadata = JStr ''metadata''\<rparr>
   \<and> calls (snd (send_message demo_env ''c1'' ''hello'' (public_columns alice) demo_world))
     = [AddUserMessage ''c1'' ''hello'', TitleStart ''hello'', TitleAwait,
        UpdateConversationTitle ''c1'' ''Title'', RunFullCouncil ''hello'',
        AddAssistantMessage ''c1'' (JStr ''answers'') (JStr ''rankings'')
          (JObj [(''response'', JStr ''final'')])]" by simp
  from 1 2 3 show ?thesis by simp
qed

section \<open>The streaming endpoint\<close>

lemma event_generator_run:
  "event_generator env cid q first w =
     (case council_turn env cid q first w of
        (Inl e, w') \<Rightarrow> (Inr (), w'\<lparr>sent := sent w' @ [Error (exn_str e)]\<rparr>)
      | (Inr a, w') \<Rightarrow> (Inr a, w'))"
  by (simp add: event_generator_def try_except_def yield_def split: prod.splits sum.splits)

lemma emitted_eq: "sent w' = sent w @ evs \<Longrightarrow> emitted w w' = evs"
  by (simp add: emitted_def)

lemma council_turn_events:
  "case council_turn env cid q first w of
     (Inr _, w') \<Rightarrow>
        sent w' = sent w @ emitted w w'
      \<and> (\<exists>s1 s2 l a s3 title_events.
            council_stage1_collect_responses env q = Inr s1
          \<and> council_stage2_collect_rankings env q s1 = Inr (s2, l)
          \<and> council_calculate_aggregate_rankings env s2 l = Inr a
          \<and> council_stage3_synthesize_final env q s1 s2 = Inr s3
          \<and> (if first
              then \<exists>t. council_generate_conversation_title env q = Inr t
                       \<and> title_events = [TitleComplete t]
              else title_events = [])
          \<and> emitted w w' =
              [Stage1Start, Stage1Complete s1, Stage2Start, Stage2Complete s2 l a, Stage3Start,
               Stage3Complete s3] @ title_events @ [Complete])
   | (Inl e, w') \<Rightarrow>
        sent w' = sent w @ emitted w w'
      \<and> prefix (map event_type (emitted w w')) (stage_event_types @ [''title_complete''])"
  by (cases first)
     (simp_all add: council_turn_def action_defs run_simps emitted_def case_prod_beta
        stage_event_types_def split: sum.splits option.splits)

lemma council_turn_returns:
  assumes "storage_writes_return env"
    and "council_stage1_collect_responses env q = Inr r1"
    and "council_stage2_collect_rankings env q r1 = Inr (r2, labels)"
    and "council_calculate_aggregate_rankings env r2 labels = Inr agg"
    and "council_stage3_synthesize_final env q r1 r2 = Inr r3"
    and "first \<longrightarrow> council_generate_conversation_title env q = Inr title"
  shows "fst (council_turn env cid q first w) = Inr ()"
    and "sent (snd (council_turn env cid q first w)) =
           sent w @ [Stage1Start, Stage1Complete r1, Stage2Start, Stage2Complete r2 labels agg,
                     Stage3Start, Stage3Complete r3]
             @ (if first then [TitleComplete title] else []) @ [Complete]"
    and "calls (snd (council_turn env cid q first w)) =
           calls w @ [AddUserMessage cid q] @ (if first then [TitleStart q] else [])
             @ [Stage1CollectResponses q, Stage2CollectRankings q r1,
                CalculateAggregateRankings r2 labels, Stage3SynthesizeFinal q r1 r2]
             @ (if first then [TitleAwait, UpdateConversationTitle cid title] else [])
             @ [AddAssistantMessage cid r1 r2 r3]"
  using assms
  by (simp_all add: council_turn_def action_defs run_simps storage_writes_return_def)

text \<open>
  C1 as the code has it.  A request for a conversation that does not exist, or that belongs
  to another user, is answered with 404 or 403 and no event stream.  Otherwise the stream
  never fails, and the events it adds are: when no call of the turn raises, the six stage
  events in the order \<^verbatim>\<open>stage1_start\<close>, \<^verbatim>\<open>stage1_complete\<close>, \<^verbatim>\<open>stage2_start\<close>,
  \<^verbatim>\<open>stage2_complete\<close> (with \<^verbatim>\<open>label_to_model\<close> and \<^verbatim>\<open>aggregate_rankings\<close>),
  \<^verbatim>\<open>stage3_start\<close>, \<^verbatim>\<open>stage3_complete\<close>, then \<^verbatim>\<open>title_complete\<close> for a first message,
  then \<^verbatim>\<open>complete\<close>; when a call raises \<open>e\<close>, the events sent before it (an initial
  segment of that order) and then one \<^verbatim>\<open>error\<close> event carrying \<^verbatim>\<open>str(e)\<close>.  No call
  raises when the storage writes, the three stage functions, the aggregation and, for a
  first message, the title generation return: then the stream is the full one, with the
  payloads those calls returned.
\<close>

theorem send_message_stream_events:
  "(storage_get_conversation env (store w) cid = None \<longrightarrow>
      send_message_stream env cid q current_user w
        = (HTTPException 404 ''Conversation not found'', w))
   \<and> (storage_get_conversation env (store w) cid = Some conversation
        \<and> subscript current_user ''id'' = Inr uid \<longrightarrow>
        (conv_user_id conversation \<noteq> uid \<longrightarrow>
           send_message_stream env cid q current_user w = (HTTPException 403 ''Access denied'', w))
      \<and> (conv_user_id conversation = uid \<longrightarrow>
           fst (send_message_stream env cid q current_user w) = Returned ()
         \<and> sent (snd (send_message_stream env cid q current_user w))
             = sent w @ emitted w (snd (send_message_stream env cid q current_user w))
         \<and> (case fst (council_turn env cid q (conv_messages conversation = []) w) of
               Inr _ \<Rightarrow>
                 (\<exists>s1 s2 l a s3 title_events.
                     council_stage1_collect_responses env q = Inr s1
                   \<and> council_stage2_collect_rankings env q s1 = Inr (s2, l)
                   \<and> council_calculate_aggregate_rankings env s2 l = Inr a
                   \<and> council_stage3_synthesize_final env q s1 s2 = Inr s3
                   \<and> (if conv_messages conversation = []
                       then \<exists>t. council_generate_conversation_title env q = Inr t
                                \<and> title_events = [TitleComplete t]
                       else title_events = [])
                   \<and> emitted w (snd (send_message_stream env cid q current_user w)) =
                       [Stage1Start, Stage1Complete s1, Stage2Start, Stage2Complete s2 l a,
                        Stage3Start, Stage3Complete s3] @ title_events @ [Complete])
             | Inl e \<Rightarrow>
                 (\<exists>stage_events.
                     emitted w (snd (send_message_stream env cid q current_user w))
                       = stage_events @ [Error (exn_str e)]
                   \<and> prefix (map event_type stage_events)
                        (stage_event_types @ [''title_complete''])))
         \<and> (storage_writes_return env
              \<and> council_stage1_collect_responses env q = Inr r1
              \<and> council_stage2_collect_rankings env q r1 = Inr (r2, labels)
              \<and> council_calculate_aggregate_rankings env r2 labels = Inr agg
              \<and> council_stage3_synthesize_final env q r1 r2 = Inr r3
              \<and> (conv_messages conversation = [] \<longrightarrow>
                    council_generate_conversation_title env q = Inr title) \<longrightarrow>
              fst (council_turn env cid q (conv_messages conversation = []) w) = Inr ()
            \<and> emitted w (snd (send_message_stream env cid q current_user w)) =
                [Stage1Start, Stage1Complete r1, Stage2Start, Stage2Complete r2 labels agg,
                 Stage3Start, Stage3Complete r3]
                @ (if conv_messages conversation = [] then [TitleComplete title] else [])
                @ [Complete])))"
proof (intro conjI impI)
  assume "storage_get_conversation env (store w) cid = None"
  then show "send_message_stream env cid q current_user w
               = (HTTPException 404 ''Conversation not found'', w)"
    by (simp add: send_message_stream_def)
next
  assume "storage_get_conversation env (store w) cid = Some conversation
            \<and> subscript current_user ''id'' = Inr uid"
     and "conv_user_id conversation \<noteq> uid"
  then show "send_message_stream env cid q current_user w = (HTTPException 403 ''Access denied'', w)"
    by (simp add: send_message_stream_def)
next
  let ?first = "conv_messages conversation = []"
  assume pre: "storage_get_conversation env (store w) cid = Some conversation
                 \<and> subscript current_user ''id'' = Inr uid"
     and own: "conv_user_id conversation = uid"
  obtain r w' where turn: "council_turn env cid q ?first w = (r, w')"
    by (cases "council_turn env cid q ?first w")
  have stream: "send_message_stream env cid q current_user w =
                  (Returned (), snd (event_generator env cid q ?first w))"
    using pre own
    by (simp add: send_message_stream_def event_generator_run split: prod.splits sum.splits)
  note ev = council_turn_events [where env = env and cid = cid and q = q and first = "?first" and w = w]
  show "fst (send_message_stream env cid q current_user w) = Returned ()"
    by (simp add: stream)
  have final: "sent (snd (send_message_stream env cid q current_user w))
                 = sent w @ emitted w w' @ (case r of Inl e \<Rightarrow> [Error (exn_str e)] | Inr _ \<Rightarrow> [])"
    using ev turn
    by (cases r) (simp_all add: stream event_generator_run)
  note em = emitted_eq [OF final]
  show "sent (snd (send_message_stream env cid q current_user w))
          = sent w @ emitted w (snd (send_message_stream env cid q current_user w))"
    using final by (simp add: em)
  show "case fst (council_turn env cid q ?first w) of
          Inr _ \<Rightarrow>
            (\<exists>s1 s2 l a s3 title_events.
                council_stage1_collect_responses env q = Inr s1
              \<and> council_stage2_collect_rankings env q s1 = Inr (s2, l)
              \<and> council_calculate_aggregate_rankings env s2 l = Inr a
              \<and> council_stage3_synthesize_final env q s1 s2 = Inr s3
              \<and> (if ?first
                  then \<exists>t. council_generate_conversation_title env q = Inr t
                           \<and> title_events = [TitleComplete t]
                  else title_events = [])
              \<and> emitted w (snd (send_message_stream env cid q current_user w)) =
                  [Stage1Start, Stage1Complete s1, Stage2Start, Stage2Complete s2 l a,
                   Stage3Start, Stage3Complete s3] @ title_events @ [Complete])
        | Inl e \<Rightarrow>
            (\<exists>stage_events.
                emitted w (snd (send_message_stream env cid q current_user w))
                  = stage_events @ [Error (exn_str e)]
              \<and> prefix (map event_type stage_events)
                   (stage_event_types @ [''title_complete'']))"
  proof (cases r)
    case (Inr u)
    with ev turn show ?thesis
      by (simp add: em)
  next
    case (Inl e)
    with ev turn
    have p: "prefix (map event_type (emitted w w')) (stage_event_types @ [''title_complete''])"
      by simp
    with turn Inl show ?thesis by (simp add: em)
  qed
next
  let ?first = "conv_messages conversation = []"
  assume pre: "storage_get_conversation env (store w) cid = Some conversation
                 \<and> subscript current_user ''id'' = Inr uid"
     and own: "conv_user_id conversation = uid"
     and ret: "storage_writes_return env
              \<and> council_stage1_collect_responses env q = Inr r1
              \<and> council_stage2_collect_rankings env q r1 = Inr (r2, labels)
              \<and> council_calculate_aggregate_rankings env r2 labels = Inr agg
              \<and> council_stage3_synthesize_final env q r1 r2 = Inr r3
              \<and> (?first \<longrightarrow> council_generate_conversation_title env q = Inr title)"
  from ret have a1: "storage_writes_return env"
    and a2: "council_stage1_collect_responses env q = Inr r1"
    and a3: "council_stage2_collect_rankings env q r1 = Inr (r2, labels)"
    and a4: "council_calculate_aggregate_rankings env r2 labels = Inr agg"
    and a5: "council_stage3_synthesize_final env q r1 r2 = Inr r3"
    and a6: "?first \<longrightarrow> council_generate_conversation_title env q = Inr title"
    by simp_all
  note ret' = council_turn_returns [OF a1 a2 a3 a4 a5 a6, where cid = cid and w = w]
  from ret' have ok: "fst (council_turn env cid q ?first w) = Inr ()"
    and ev: "sent (snd (council_turn env cid q ?first w)) =
           sent w @ [Stage1Start, Stage1Complete r1, Stage2Start, Stage2Complete r2 labels agg,
                     Stage3Start, Stage3Complete r3]
             @ (if ?first then [TitleComplete title] else []) @ [Complete]"
    by simp_all
  show "fst (council_turn env cid q ?first w) = Inr ()" by (rule ok)
  obtain w' where turn: "council_turn env cid q ?first w = (Inr (), w')"
    using ok by (cases "council_turn env cid q ?first w") simp
  have "send_message_stream env cid q current_user w = (Returned (), w')"
    using pre own turn
    by (simp add: send_message_stream_def event_generator_run)
  moreover from ev turn have "sent w' =
           sent w @ [Stage1Start, Stage1Complete r1, Stage2Start, Stage2Complete r2 labels agg,
                     Stage3Start, Stage3Complete r3]
             @ (if ?first then [TitleComplete title] else []) @ [Complete]"
    by simp
  ultimately show "emitted w (snd (send_message_stream env cid q current_user w)) =
                [Stage1Start, Stage1Complete r1, Stage2Start, Stage2Complete r2 labels agg,
                 Stage3Start, Stage3Complete r3]
                @ (if ?first then [TitleComplete title] else [])
                @ [Complete]"
    by (simp add: emitted_def)
qed

lemmas stream_defs = send_message_stream_def event_generator_def try_except_def council_turn_def

theorem send_message_stream_events_witness:
  "emitted demo_world
     (snd (send_message_stream demo_env ''c1'' ''hello'' (public_columns alice) demo_world))
     = [Stage1Start, Stage1Complete (JStr ''answers''), Stage2Start,
        Stage2Complete (JStr ''rankings'') (JStr ''labels'') (JStr ''aggregate''), Stage3Start,
        Stage3Complete (JObj [(''response'', JStr ''final'')]), TitleComplete ''Title'', Complete]
   \<and> emitted demo_world
       (snd (send_message_stream failing_env ''c1'' ''hello'' (public_columns alice) demo_world))
     = [Stage1Start, Error ''provider down'']
   \<and> send_message_stream demo_env ''c2'' ''hello'' (public_columns alice) demo_world
     = (HTTPException 403 ''Access denied'', demo_world)"
proof -
  have ok: "fst (council_turn demo_env ''c1'' ''hello'' True demo_world) = Inr ()"
    by (simp add: council_turn_def action_defs run_simps)
  have bad: "fst (council_turn failing_env ''c1'' ''hello'' True demo_world)
               = Inl (Exception ''provider down'')"
    by (simp add: council_turn_def action_defs run_simps)
  note a = send_message_stream_events [where env = demo_env and w = demo_world and cid = "''c1''"
             and q = "''hello''" and current_user = "public_columns alice"
             and conversation = "\<lparr>conv_user_id = JStr ''u1'', conv_messages = []\<rparr>"
             and uid = "JStr ''u1''"]
  note b = send_message_stream_events [where env = failing_env and w = demo_world
             and cid = "''c1''" and q = "''hello''" and current_user = "public_columns alice"
             and conversation = "\<lparr>conv_user_id = JStr ''u1'', conv_messages = []\<rparr>"
             and uid = "JStr ''u1''"]
  note c = send_message_stream_events [where env = demo_env and w = demo_world and cid = "''c2''"
             and q = "''hello''" and current_user = "public_columns alice"
             and conversation = "\<lparr>conv_user_id = JStr ''u2'', conv_messages = [JStr ''earlier turn'']\<rparr>"
             and uid = "JStr ''u1''"]
  from a ok have 1: "emitted demo_world
     (snd (send_message_stream demo_env ''c1'' ''hello'' (public_columns alice) demo_world))
     = [Stage1Start, Stage1Complete (JStr ''answers''), Stage2Start,
        Stage2Complete (JStr ''rankings'') (JStr ''labels'') (JStr ''aggregate''), Stage3Start,
        Stage3Complete (JObj [(''response'', JStr ''final'')]), TitleComplete ''Title'', Complete]"
    by auto
  have 2: "emitted demo_world
       (snd (send_message_stream failing_env ''c1'' ''hello'' (public_columns alice) demo_world))
     = [Stage1Start, Error ''provider down'']"
    using b bad by (simp add: stream_defs action_defs run_simps emitted_def)
  from c have 3: "send_message_stream demo_env ''c2'' ''hello'' (public_columns alice) demo_world
     = (HTTPException 403 ''Access denied'', demo_world)"
    by simp
  from 1 2 3 show ?thesis by simp
qed

text \<open>
  When Stage 1 raises, the stream is \<^verbatim>\<open>stage1_start\<close>, \<^verbatim>\<open>error\<close>: the other five stage
  events are not in it.  A request for an unknown conversation has no stream at all.
\<close>

theorem stream_cut_short:
  "emitted demo_world
     (snd (send_message_stream failing_env ''c1'' ''hello'' (public_columns alice) demo_world))
     = [Stage1Start, Error ''provider down'']
   \<and> ''stage1_complete'' \<notin> set (map event_type (emitted demo_world
        (snd (send_message_stream failing_env ''c1'' ''hello'' (public_columns alice) demo_world))))
   \<and> send_message_stream demo_env ''c9'' ''hello'' (public_columns alice) demo_world
     = (HTTPException 404 ''Conversation not found'', demo_world)"
  by (simp add: stream_defs action_defs run_simps emitted_def)

section \<open>The voice session\<close>

text \<open>
  C7.  \<^verbatim>\<open>stop_recording\<close> with no transcription connection: when the session has no
  client (\<^verbatim>\<open>realtime_client\<close> is \<^verbatim>\<open>None\<close>), or a client that never connected (a
  \<^verbatim>\<open>start_recording\<close> whose connection attempt failed), the session sends one \<^verbatim>\<open>error\<close>
  event, commits no audio, calls no collaborator, stores nothing, keeps its audio buffer,
  is left without a client, and goes on with the next client message.  (The client
  connection is taken to accept the event.)
\<close>

theorem stop_without_recording:
  "(realtime_client s = None
      \<and> websocket_send_json env (sent s) (Error ''No recording session active'') = None \<longrightarrow>
      handle_message env cid StopRecording s
        = (Inr True, s\<lparr>is_recording := False,
                         sent := sent s @ [Error ''No recording session active'']\<rparr>)
      \<and> message_loop env cid (StopRecording # ms) s
        = message_loop env cid ms (snd (handle_message env cid StopRecording s)))
   \<and> (realtime_client s = Some c \<and> \<not> rt_ws c \<and> \<not> rt_connected c
        \<and> websocket_send_json env (sent s) (Error ''No speech detected'') = None \<longrightarrow>
      handle_message env cid StopRecording s
        = (Inr True, s\<lparr>is_recording := False, realtime_client := None,
                         sent := sent s @ [Error ''No speech detected'']\<rparr>)
      \<and> message_loop env cid (StopRecording # ms) s
        = message_loop env cid ms (snd (handle_message env cid StopRecording s)))"
proof (intro conjI impI)
  assume a: "realtime_client s = None
      \<and> websocket_send_json env (sent s) (Error ''No recording session active'') = None"
  then show h: "handle_message env cid StopRecording s
        = (Inr True, s\<lparr>is_recording := False,
                         sent := sent s @ [Error ''No recording session active'']\<rparr>)"
    by (simp add: voice_defs send_event_def returnP_def bindP_def)
  show "message_loop env cid (StopRecording # ms) s
        = message_loop env cid ms (snd (handle_message env cid StopRecording s))"
    by (simp add: h)
next
  assume b: "realtime_client s = Some c \<and> \<not> rt_ws c \<and> \<not> rt_connected c
        \<and> websocket_send_json env (sent s) (Error ''No speech detected'') = None"
  then show h: "handle_message env cid StopRecording s
        = (Inr True, s\<lparr>is_recording := False, realtime_client := None,
                         sent := sent s @ [Error ''No speech detected'']\<rparr>)"
    by (simp add: voice_defs try_finally_def try_except_def send_event_def returnP_def
          set_client_def with_client_def bindP_def)
  show "message_loop env cid (StopRecording # ms) s
        = message_loop env cid ms (snd (handle_message env cid StopRecording s))"
    by (simp add: h)
qed

theorem stop_without_recording_witness:
  "handle_message demo_env ''c1'' StopRecording idle_session
     = (Inr True, idle_session\<lparr>sent := [Error ''No recording session active'']\<rparr>)
   \<and> handle_message demo_env ''c1'' StopRecording
       (idle_session\<lparr>realtime_client := Some \<lparr>rt_ws = False, rt_connected = False\<rparr>,
                      is_recording := True\<rparr>)
     = (Inr True, idle_session\<lparr>sent := [Error ''No speech detected'']\<rparr>)"
proof -
  note a = stop_without_recording [where s = idle_session and env = demo_env and cid = "''c1''"]
  note b = stop_without_recording
             [where s = "idle_session\<lparr>realtime_client := Some \<lparr>rt_ws = False, rt_connected = False\<rparr>,
                                      is_recording := True\<rparr>"
                and env = demo_env and cid = "''c1''" and c = "\<lparr>rt_ws = False, rt_connected = False\<rparr>"]
  have i: "idle_session\<lparr>is_recording := False\<rparr> = idle_session"
    by (simp add: idle_session_def new_session_def)
  from a i have 1: "handle_message demo_env ''c1'' StopRecording idle_session
     = (Inr True, idle_session\<lparr>sent := [Error ''No recording session active'']\<rparr>)"
    by (simp add: idle_session_def new_session_def)
  from b have 2: "handle_message demo_env ''c1'' StopRecording
       (idle_session\<lparr>realtime_client := Some \<lparr>rt_ws = False, rt_connected = False\<rparr>,
                      is_recording := True\<rparr>)
     = (Inr True, idle_session\<lparr>sent := [Error ''No speech detected'']\<rparr>)"
    by (simp add: idle_session_def new_session_def)
  from 1 2 show ?thesis by simp
qed

text \<open>
  C8.  With a client whose connection is open, an \<^verbatim>\<open>audio\<close> message with a non-empty
  payload that decodes to \<open>decoded\<close> appends \<open>decoded\<close> as one new chunk after the chunks
  already buffered and sends the same bytes to the transcription service; nothing else
  changes.  (The transcription connection is taken to accept the message.)
\<close>

theorem audio_dual_write:
  assumes "realtime_client s = Some c" and "rt_ws c" and "rt_connected c"
    and "audio_data \<noteq> []" and "b64decode env audio_data = Inr decoded"
    and "realtime_send env (InputAudioBufferAppend decoded) = None"
  shows "handle_message env cid (Audio audio_data) s
           = (Inr True, s\<lparr>audio_chunks := audio_chunks s @ [decoded],
                            calls := calls s @ [RealtimeSend (InputAudioBufferAppend decoded)]\<rparr>)"
  using assms
  by (simp add: voice_defs returnP_def with_client_def bindP_def realtime_ws_send_run
        option_outcome_def)

theorem audio_dual_write_witness:
  "handle_message demo_env ''c1'' (Audio ''aGk='') recording_session
     = (Inr True,
        recording_session\<lparr>audio_chunks := [''hi'', ''hi''],
          calls := [RealtimeConnect, RealtimeSend SessionUpdate,
                    RealtimeSend (InputAudioBufferAppend ''hi'')]\<rparr>)"
  using audio_dual_write [where s = recording_session and env = demo_env and cid = "''c1''"
          and c = "\<lparr>rt_ws = True, rt_connected = True\<rparr>" and audio_data = "''aGk=''"
          and decoded = "''hi''"]
  by simp

text \<open>
  C6.  \<^verbatim>\<open>stop_recording\<close> with an open transcription connection, when the transcription
  that comes back is missing, empty or whitespace only: the session commits the audio,
  waits for the transcription, sends one \<^verbatim>\<open>error\<close> event \<^verbatim>\<open>No speech detected\<close>, closes
  the transcription connection and drops the client; it calls no council stage, stores
  nothing, and goes on with the next client message.  (The service is taken to accept
  the commit and the close, the client connection to accept the event.)
\<close>

theorem empty_transcription:
  assumes "realtime_client s = Some c" and "rt_ws c" and "rt_connected c"
    and "realtime_send env InputAudioBufferCommit = None"
    and "realtime_send env ResponseCreate = None"
    and "receive_loop [] (realtime_inbox env) (realtime_inbox_end env) = (received, closed)"
    and "received = None \<or> (\<exists>t. received = Some t \<and> whitespace_only t)"
    and "websocket_send_json env (sent s) (Error ''No speech detected'') = None"
    and "realtime_close env = None"
  shows "handle_message env cid StopRecording s
           = (Inr True,
              s\<lparr>is_recording := False, realtime_client := None,
                sent := sent s @ [Error ''No speech detected''],
                calls := calls s @ [RealtimeSend InputAudioBufferCommit, RealtimeSend ResponseCreate,
                                    RealtimeReceive, RealtimeClose]\<rparr>)
         \<and> message_loop env cid (StopRecording # ms) s
           = message_loop env cid ms (snd (handle_message env cid StopRecording s))"
proof -
  have "handle_message env cid StopRecording s
           = (Inr True,
              s\<lparr>is_recording := False, realtime_client := None,
                sent := sent s @ [Error ''No speech detected''],
                calls := calls s @ [RealtimeSend InputAudioBufferCommit, RealtimeSend ResponseCreate,
                                    RealtimeReceive, RealtimeClose]\<rparr>)"
    using assms
    by (cases closed)
       (auto simp: voice_defs try_finally_def try_except_def send_event_def returnP_def
          set_client_def with_client_def bindP_def realtime_ws_send_run option_outcome_def
          collaborator_def log_call_def strip_empty_iff)
  then show ?thesis by simp
qed

theorem empty_transcription_witness:
  "receive_loop [] (realtime_inbox demo_env) (realtime_inbox_end demo_env) = (Some [0x20, 0xA0, 0x2003], False)
   \<and> whitespace_only [0x20, 0xA0, 0x2003]
   \<and> handle_message demo_env ''c1'' StopRecording recording_session
     = (Inr True,
        recording_session\<lparr>is_recording := False, realtime_client := None,
          sent := [RecordingStarted, Error ''No speech detected''],
          calls := [RealtimeConnect, RealtimeSend SessionUpdate, RealtimeSend InputAudioBufferCommit,
                    RealtimeSend ResponseCreate, RealtimeReceive, RealtimeClose]\<rparr>)"
proof -
  have r: "receive_loop [] (realtime_inbox demo_env) (realtime_inbox_end demo_env)
             = (Some [0x20, 0xA0, 0x2003], False)"
    by simp
  have ws: "whitespace_only [0x20, 0xA0, 0x2003]"
    by (simp add: whitespace_only_def is_space_def)
  from empty_transcription [where s = recording_session and env = demo_env and cid = "''c1''"
          and c = "\<lparr>rt_ws = True, rt_connected = True\<rparr>" and received = "Some [0x20, 0xA0, 0x2003]"
          and closed = False, OF _ _ _ _ _ r] ws r
  show ?thesis by simp
qed

section \<open>When the title is generated\<close>

lemma send_message_body_returns:
  assumes "storage_writes_return env"
    and "council_run_full_council env q = Inr (r1, r2, r3, meta)"
    and "first \<longrightarrow> council_generate_conversation_title env q = Inr title"
  shows "fst (send_message_body env cid q first w)
           = Inr \<lparr>resp_stage1 = r1, resp_stage2 = r2, resp_stage3 = r3, resp_metadata = meta\<rparr>"
    and "calls (snd (send_message_body env cid q first w)) =
           calls w @ [AddUserMessage cid q]
             @ (if first then [TitleStart q, TitleAwait, UpdateConversationTitle cid title] else [])
             @ [RunFullCouncil q, AddAssistantMessage cid r1 r2 r3]"
  using assms
  by (simp_all add: send_message_body_def action_defs run_simps storage_writes_return_def)

lemma council_process_returns:
  assumes "storage_writes_return env"
    and "\<forall>evs ev. websocket_send_json env evs ev = None"
    and "council_stage1_collect_responses env q = Inr r1"
    and "council_stage2_collect_rankings env q r1 = Inr (r2, labels)"
    and "council_calculate_aggregate_rankings env r2 labels = Inr agg"
    and "council_stage3_synthesize_final env q r1 r2 = Inr r3"
    and "first \<longrightarrow> council_generate_conversation_title env q = Inr title"
    and "dict_get r3 ''response'' (JStr []) = Inr speech"
  shows "calls (snd (council_process env cid q first w)) =
           calls w @ [AddUserMessage cid q] @ (if first then [TitleStart q] else [])
             @ [Stage1CollectResponses q, Stage2CollectRankings q r1,
                CalculateAggregateRankings r2 labels, Stage3SynthesizeFinal q r1 r2,
                AddAssistantMessage cid r1 r2 r3]
             @ (if first then [TitleAwait, UpdateConversationTitle cid title] else [])
             @ (if falsy speech then [] else [TextToSpeech speech])"
  using assms
  by (simp add: council_process_def action_defs run_simps storage_writes_return_def
        stream_audio_response_calls)

lemma send_message_calls:
  assumes "storage_get_conversation env (store w) cid = Some conversation"
    and "subscript current_user ''id'' = Inr (conv_user_id conversation)"
  shows "calls (snd (send_message env cid q current_user w))
           = calls (snd (send_message_body env cid q (conv_messages conversation = []) w))"
  using assms by (simp add: send_message_def split: prod.splits sum.splits)

lemma send_message_stream_calls:
  assumes "storage_get_conversation env (store w) cid = Some conversation"
    and "subscript current_user ''id'' = Inr (conv_user_id conversation)"
  shows "calls (snd (send_message_stream env cid q current_user w))
           = calls (snd (council_turn env cid q (conv_messages conversation = []) w))"
  using assms event_generator_calls [of env cid q "conv_messages conversation = []" w]
  by (auto simp add: send_message_stream_def split: prod.splits sum.splits)

text \<open>
  C3 as the code has it.  The collaborator calls of a turn follow a fixed order on each
  surface, all of it when the turn returns and an initial segment when a call raises:
  \<open>stream_order\<close> for the streaming endpoint (the \<^verbatim>\<open>try\<close> block of \<^verbatim>\<open>event_generator\<close>),
  \<open>voice_order\<close> for the voice session once the conversation is found, \<open>atomic_order\<close>
  for the atomic endpoint after its checks; when the collaborators return, the calls are
  the ones listed, with the arguments shown.  So for a first message the title task is
  started before Stage 1 on the streaming and the voice surface; the streaming endpoint
  awaits it after Stage 3 and before the assistant message is stored, the voice session
  after Stage 3 and after the assistant message is stored.  The atomic endpoint starts and
  awaits the title on the spot, before the council runs.  For a later message no surface
  makes a title call.
\<close>

theorem title_generation_order:
  "prefix (new_calls w (snd (council_turn env cid q first w))) (stream_order first)
   \<and> (case fst (council_turn env cid q first w) of
         Inr _ \<Rightarrow> new_calls w (snd (council_turn env cid q first w)) = stream_order first
       | Inl _ \<Rightarrow> True)
   \<and> calls (snd (event_generator env cid q first w)) = calls (snd (council_turn env cid q first w))
   \<and> prefix (new_calls w (snd (council_process env cid q first w))) (voice_order first)
   \<and> (case fst (council_process env cid q first w) of
         Inr _ \<Rightarrow> prefix (butlast (voice_order first))
                    (new_calls w (snd (council_process env cid q first w)))
       | Inl _ \<Rightarrow> True)
   \<and> prefix (new_calls w (snd (send_message_body env cid q first w))) (atomic_order first)
   \<and> (case fst (send_message_body env cid q first w) of
         Inr _ \<Rightarrow> new_calls w (snd (send_message_body env cid q first w)) = atomic_order first
       | Inl _ \<Rightarrow> True)
   \<and> (storage_get_conversation env (store w) cid = Some conversation \<longrightarrow>
        run_council_process env cid q w
          = council_process env cid q (conv_messages conversation = []) w
      \<and> (subscript current_user ''id'' = Inr (conv_user_id conversation) \<longrightarrow>
           calls (snd (send_message_stream env cid q current_user w))
             = calls (snd (council_turn env cid q (conv_messages conversation = []) w))
         \<and> calls (snd (send_message env cid q current_user w))
             = calls (snd (send_message_body env cid q (conv_messages conversation = []) w))))
   \<and> (storage_writes_return env
        \<and> (first \<longrightarrow> council_generate_conversation_title env q = Inr title) \<longrightarrow>
        (council_stage1_collect_responses env q = Inr r1
           \<and> council_stage2_collect_rankings env q r1 = Inr (r2, labels)
           \<and> council_calculate_aggregate_rankings env r2 labels = Inr agg
           \<and> council_stage3_synthesize_final env q r1 r2 = Inr r3 \<longrightarrow>
           fst (council_turn env cid q first w) = Inr ()
         \<and> calls (snd (council_turn env cid q first w)) =
             calls w @ [AddUserMessage cid q] @ (if first then [TitleStart q] else [])
               @ [Stage1CollectResponses q, Stage2CollectRankings q r1,
                  CalculateAggregateRankings r2 labels, Stage3SynthesizeFinal q r1 r2]
               @ (if first then [TitleAwait, UpdateConversationTitle cid title] else [])
               @ [AddAssistantMessage cid r1 r2 r3]
         \<and> ((\<forall>evs ev. websocket_send_json env evs ev = None)
              \<and> dict_get r3 ''response'' (JStr []) = Inr speech \<longrightarrow>
             calls (snd (council_process env cid q first w)) =
               calls w @ [AddUserMessage cid q] @ (if first then [TitleStart q] else [])
                 @ [Stage1CollectResponses q, Stage2CollectRankings q r1,
                    CalculateAggregateRankings r2 labels, Stage3SynthesizeFinal q r1 r2,
                    AddAssistantMessage cid r1 r2 r3]
                 @ (if first then [TitleAwait, UpdateConversationTitle cid title] else [])
                 @ (if falsy speech then [] else [TextToSpeech speech])))
      \<and> (council_run_full_council env q = Inr (r1, r2, r3, meta) \<longrightarrow>
           fst (send_message_body env cid q first w)
             = Inr \<lparr>resp_stage1 = r1, resp_stage2 = r2, resp_stage3 = r3, resp_metadata = meta\<rparr>
         \<and> calls (snd (send_message_body env cid q first w)) =
             calls w @ [AddUserMessage cid q]
               @ (if first then [TitleStart q, TitleAwait, UpdateConversationTitle cid title]
                  else [])
               @ [RunFullCouncil q, AddAssistantMessage cid r1 r2 r3]))
   \<and> stream_order True = [StoreUserMessage, StartTitle, Stage1, Stage2, Aggregate, Stage3,
                           AwaitTitle, StoreTitle, StoreAssistantMessage]
   \<and> voice_order True = [StoreUserMessage, StartTitle, Stage1, Stage2, Aggregate, Stage3,
                          StoreAssistantMessage, AwaitTitle, StoreTitle, Speech]
   \<and> atomic_order True = [StoreUserMessage, StartTitle, AwaitTitle, StoreTitle, FullCouncil,
                           StoreAssistantMessage]
   \<and> stream_order False = [StoreUserMessage, Stage1, Stage2, Aggregate, Stage3,
                            StoreAssistantMessage]
   \<and> voice_order False = [StoreUserMessage, Stage1, Stage2, Aggregate, Stage3,
                           StoreAssistantMessage, Speech]
   \<and> atomic_order False = [StoreUserMessage, FullCouncil, StoreAssistantMessage]"
proof -
  note s = makes_exact [OF council_turn_makes [where first = first and env = env and cid = cid
                                                 and q = q], where w = w]
  note a = makes_exact [OF send_message_body_makes [where first = first and env = env
                                                      and cid = cid and q = q], where w = w]
  note v = makes_new_calls [OF council_process_makes [where first = first and env = env
                                                        and cid = cid and q = q], where w = w]
  have vo: "butlast (voice_order first) @ [Speech] = voice_order first"
    by (simp add: voice_order_def)
  have orders:
    "prefix (new_calls w (snd (council_turn env cid q first w))) (stream_order first)
     \<and> (case fst (council_turn env cid q first w) of
           Inr _ \<Rightarrow> new_calls w (snd (council_turn env cid q first w)) = stream_order first
         | Inl _ \<Rightarrow> True)
     \<and> prefix (new_calls w (snd (council_process env cid q first w))) (voice_order first)
     \<and> (case fst (council_process env cid q first w) of
           Inr _ \<Rightarrow> prefix (butlast (voice_order first))
                      (new_calls w (snd (council_process env cid q first w)))
         | Inl _ \<Rightarrow> True)
     \<and> prefix (new_calls w (snd (send_message_body env cid q first w))) (atomic_order first)
     \<and> (case fst (send_message_body env cid q first w) of
           Inr _ \<Rightarrow> new_calls w (snd (send_message_body env cid q first w)) = atomic_order first
         | Inl _ \<Rightarrow> True)"
    using s a v vo by simp
  have surfaces:
    "storage_get_conversation env (store w) cid = Some conversation \<longrightarrow>
        run_council_process env cid q w
          = council_process env cid q (conv_messages conversation = []) w
      \<and> (subscript current_user ''id'' = Inr (conv_user_id conversation) \<longrightarrow>
           calls (snd (send_message_stream env cid q current_user w))
             = calls (snd (council_turn env cid q (conv_messages conversation = []) w))
         \<and> calls (snd (send_message env cid q current_user w))
             = calls (snd (send_message_body env cid q (conv_messages conversation = []) w)))"
    by (simp add: run_council_process_found send_message_calls send_message_stream_calls)
  have returns:
    "storage_writes_return env
        \<and> (first \<longrightarrow> council_generate_conversation_title env q = Inr title) \<longrightarrow>
        (council_stage1_collect_responses env q = Inr r1
           \<and> council_stage2_collect_rankings env q r1 = Inr (r2, labels)
           \<and> council_calculate_aggregate_rankings env r2 labels = Inr agg
           \<and> council_stage3_synthesize_final env q r1 r2 = Inr r3 \<longrightarrow>
           fst (council_turn env cid q first w) = Inr ()
         \<and> calls (snd (council_turn env cid q first w)) =
             calls w @ [AddUserMessage cid q] @ (if first then [TitleStart q] else [])
               @ [Stage1CollectResponses q, Stage2CollectRankings q r1,
                  CalculateAggregateRankings r2 labels, Stage3SynthesizeFinal q r1 r2]
               @ (if first then [TitleAwait, UpdateConversationTitle cid title] else [])
               @ [AddAssistantMessage cid r1 r2 r3]
         \<and> ((\<forall>evs ev. websocket_send_json env evs ev = None)
              \<and> dict_get r3 ''response'' (JStr []) = Inr speech \<longrightarrow>
             calls (snd (council_process env cid q first w)) =
               calls w @ [AddUserMessage cid q] @ (if first then [TitleStart q] else [])
                 @ [Stage1CollectResponses q, Stage2CollectRankings q r1,
                    CalculateAggregateRankings r2 labels, Stage3SynthesizeFinal q r1 r2,
                    AddAssistantMessage cid r1 r2 r3]
                 @ (if first then [TitleAwait, UpdateConversationTitle cid title] else [])
                 @ (if falsy speech then [] else [TextToSpeech speech])))
      \<and> (council_run_full_council env q = Inr (r1, r2, r3, meta) \<longrightarrow>
           fst (send_message_body env cid q first w)
             = Inr \<lparr>resp_stage1 = r1, resp_stage2 = r2, resp_stage3 = r3, resp_metadata = meta\<rparr>
         \<and> calls (snd (send_message_body env cid q first w)) =
             calls w @ [AddUserMessage cid q]
               @ (if first then [TitleStart q, TitleAwait, UpdateConversationTitle cid title]
                  else [])
               @ [RunFullCouncil q, AddAssistantMessage cid r1 r2 r3])"
  proof (intro impI conjI)
    assume h: "storage_writes_return env
                 \<and> (first \<longrightarrow> council_generate_conversation_title env q = Inr title)"
      and c: "council_stage1_collect_responses env q = Inr r1
           \<and> council_stage2_collect_rankings env q r1 = Inr (r2, labels)
           \<and> council_calculate_aggregate_rankings env r2 labels = Inr agg
           \<and> council_stage3_synthesize_final env q r1 r2 = Inr r3"
    from h c have a1: "storage_writes_return env"
      and a2: "council_stage1_collect_responses env q = Inr r1"
      and a3: "council_stage2_collect_rankings env q r1 = Inr (r2, labels)"
      and a4: "council_calculate_aggregate_rankings env r2 labels = Inr agg"
      and a5: "council_stage3_synthesize_final env q r1 r2 = Inr r3"
      and a6: "first \<longrightarrow> council_generate_conversation_title env q = Inr title"
      by simp_all
    note t = council_turn_returns [OF a1 a2 a3 a4 a5 a6, where cid = cid and w = w]
    from t(1) show "fst (council_turn env cid q first w) = Inr ()" .
    from t(3) show "calls (snd (council_turn env cid q first w)) =
             calls w @ [AddUserMessage cid q] @ (if first then [TitleStart q] else [])
               @ [Stage1CollectResponses q, Stage2CollectRankings q r1,
                  CalculateAggregateRankings r2 labels, Stage3SynthesizeFinal q r1 r2]
               @ (if first then [TitleAwait, UpdateConversationTitle cid title] else [])
               @ [AddAssistantMessage cid r1 r2 r3]" .
    assume v: "(\<forall>evs ev. websocket_send_json env evs ev = None)
              \<and> dict_get r3 ''response'' (JStr []) = Inr speech"
    then have b1: "\<forall>evs ev. websocket_send_json env evs ev = None"
      and b2: "dict_get r3 ''response'' (JStr []) = Inr speech"
      by simp_all
    from council_process_returns [OF a1 b1 a2 a3 a4 a5 a6 b2, where cid = cid and w = w]
    show "calls (snd (council_process env cid q first w)) =
               calls w @ [AddUserMessage cid q] @ (if first then [TitleStart q] else [])
                 @ [Stage1CollectResponses q, Stage2CollectRankings q r1,
                    CalculateAggregateRankings r2 labels, Stage3SynthesizeFinal q r1 r2,
                    AddAssistantMessage cid r1 r2 r3]
                 @ (if first then [TitleAwait, UpdateConversationTitle cid title] else [])
                 @ (if falsy speech then [] else [TextToSpeech speech])" .
  next
    assume h: "storage_writes_return env
                 \<and> (first \<longrightarrow> council_generate_conversation_title env q = Inr title)"
      and f: "council_run_full_council env q = Inr (r1, r2, r3, meta)"
    from h have a1: "storage_writes_return env"
      and a6: "first \<longrightarrow> council_generate_conversation_title env q = Inr title"
      by simp_all
    note b = send_message_body_returns [OF a1 f a6, where cid = cid and w = w]
    from b(1) show "fst (send_message_body env cid q first w)
             = Inr \<lparr>resp_stage1 = r1, resp_stage2 = r2, resp_stage3 = r3, resp_metadata = meta\<rparr>" .
    from b(2) show "calls (snd (send_message_body env cid q first w)) =
             calls w @ [AddUserMessage cid q]
               @ (if first then [TitleStart q, TitleAwait, UpdateConversationTitle cid title]
                  else [])
               @ [RunFullCouncil q, AddAssistantMessage cid r1 r2 r3]" .
  qed
  have lists:
    "stream_order True = [StoreUserMessage, StartTitle, Stage1, Stage2, Aggregate, Stage3,
                           AwaitTitle, StoreTitle, StoreAssistantMessage]
   \<and> voice_order True = [StoreUserMessage, StartTitle, Stage1, Stage2, Aggregate, Stage3,
                          StoreAssistantMessage, AwaitTitle, StoreTitle, Speech]
   \<and> atomic_order True = [StoreUserMessage, StartTitle, AwaitTitle, StoreTitle, FullCouncil,
                           StoreAssistantMessage]
   \<and> stream_order False = [StoreUserMessage, Stage1, Stage2, Aggregate, Stage3,
                            StoreAssistantMessage]
   \<and> voice_order False = [StoreUserMessage, Stage1, Stage2, Aggregate, Stage3,
                           StoreAssistantMessage, Speech]
   \<and> atomic_order False = [StoreUserMessage, FullCouncil, StoreAssistantMessage]"
    by (simp add: stream_order_def voice_order_def atomic_order_def)
  from orders surfaces returns lists event_generator_calls [of env cid q first w]
  show ?thesis by blast
qed

theorem title_generation_order_witness:
  "new_calls demo_world (snd (council_turn demo_env ''c1'' ''hello'' True demo_world))
     = [StoreUserMessage, StartTitle, Stage1, Stage2, Aggregate, Stage3, AwaitTitle, StoreTitle,
        StoreAssistantMessage]
   \<and> new_calls demo_world (snd (council_process demo_env ''c1'' ''hello'' True demo_world))
     = [StoreUserMessage, StartTitle, Stage1, Stage2, Aggregate, Stage3, StoreAssistantMessage,
        AwaitTitle, StoreTitle, Speech]
   \<and> new_calls demo_world (snd (send_message_body demo_env ''c1'' ''hello'' True demo_world))
     = [StoreUserMessage, StartTitle, AwaitTitle, StoreTitle, FullCouncil, StoreAssistantMessage]
   \<and> new_calls demo_world (snd (council_turn demo_env ''c2'' ''again'' False demo_world))
     = [StoreUserMessage, Stage1, Stage2, Aggregate, Stage3, StoreAssistantMessage]
   \<and> run_council_process demo_env ''c2'' ''again'' demo_world
     = council_process demo_env ''c2'' ''again'' False demo_world"
proof -
  have r1: "fst (council_turn demo_env ''c1'' ''hello'' True demo_world) = Inr ()"
    and r2: "fst (send_message_body demo_env ''c1'' ''hello'' True demo_world)
               = Inr \<lparr>resp_stage1 = JStr ''answers'', resp_stage2 = JStr ''rankings'',
                       resp_stage3 = JObj [(''response'', JStr ''final'')],
                       resp_metadata = JStr ''metadata''\<rparr>"
    and r3: "fst (council_turn demo_env ''c2'' ''again'' False demo_world) = Inr ()"
    by (simp_all add: body_defs action_defs run_simps)
  note a = title_generation_order [where env = demo_env and w = demo_world and cid = "''c1''"
             and q = "''hello''" and first = True]
  note b = title_generation_order [where env = demo_env and w = demo_world and cid = "''c2''"
             and q = "''again''" and first = False
             and conversation = "\<lparr>conv_user_id = JStr ''u2'', conv_messages = [JStr ''earlier turn'']\<rparr>"]
  have v: "new_calls demo_world (snd (council_process demo_env ''c1'' ''hello'' True demo_world))
     = [StoreUserMessage, StartTitle, Stage1, Stage2, Aggregate, Stage3, StoreAssistantMessage,
        AwaitTitle, StoreTitle, Speech]"
    by (simp add: body_defs action_defs run_simps new_calls_def dict_get_def
          stream_audio_response_calls)
  from a b r1 r2 r3 v show ?thesis by simp
qed

text \<open>
  A first message on the atomic endpoint: the title is awaited before
  \<^verbatim>\<open>run_full_council\<close> is called.  A first message in a voice session: the title is
  awaited after the assistant message is stored.
\<close>

theorem title_awaited_elsewhere:
  "new_calls demo_world
     (snd (send_message demo_env ''c1'' ''hello'' (public_columns alice) demo_world))
     = [StoreUserMessage, StartTitle, AwaitTitle, StoreTitle, FullCouncil, StoreAssistantMessage]
   \<and> occurs_before AwaitTitle FullCouncil
       (new_calls demo_world
          (snd (send_message demo_env ''c1'' ''hello'' (public_columns alice) demo_world)))
   \<and> new_calls demo_world (snd (run_council_process demo_env ''c1'' ''hello'' demo_world))
     = [StoreUserMessage, StartTitle, Stage1, Stage2, Aggregate, Stage3, StoreAssistantMessage,
        AwaitTitle, StoreTitle, Speech]
   \<and> occurs_before StoreAssistantMessage AwaitTitle
       (new_calls demo_world (snd (run_council_process demo_env ''c1'' ''hello'' demo_world)))"
proof -
  have a: "new_calls demo_world
     (snd (send_message demo_env ''c1'' ''hello'' (public_columns alice) demo_world))
     = [StoreUserMessage, StartTitle, AwaitTitle, StoreTitle, FullCouncil, StoreAssistantMessage]"
    by (simp add: send_message_def body_defs action_defs run_simps new_calls_def)
  have v: "new_calls demo_world (snd (run_council_process demo_env ''c1'' ''hello'' demo_world))
     = [StoreUserMessage, StartTitle, Stage1, Stage2, Aggregate, Stage3, StoreAssistantMessage,
        AwaitTitle, StoreTitle, Speech]"
    by (simp add: run_council_process_def body_defs action_defs run_simps new_calls_def
          dict_get_def stream_audio_response_calls)
  show ?thesis by (simp add: a v)
qed

end
